theory Spec2Isabelle
  imports Main "HOL-Library.AList"
begin

section \<open>The tracer the plugin drives\<close>

text \<open>
  The plugin of \<^verbatim>\<open>instrumentation.py\<close> reacts to the runner's hook calls by
  calling the OpenTelemetry tracer. The tracer is not part of the repository; what the
  plugin can observe of it is modelled here: a store of spans, the span that is current
  in the ambient context, and the list of spans handed to the exporter when they end.
\<close>

datatype status_code = UNSET | OK | ERROR

datatype status = Status (status_code: status_code) (description: "string option")


datatype attr_value = AStr string | AInt int

type_synonym attributes = "(string \<times> attr_value) list"

datatype event = Event (event_name: string) (event_attributes: attributes)

text \<open>
  A context is either what \<^verbatim>\<open>propagate.extract\<close> makes of a carrier (opaque: the
  carrier stands for it) or the context \<^verbatim>\<open>trace.set_span_in_context\<close> builds around a
  span of the store.
\<close>

datatype "context" = Extracted "(string \<times> string) list" | WithSpan nat

record span =
  span_name :: string
  span_parent :: "context option"
  span_attributes :: attributes
  span_status :: status
  span_events :: "event list"
  span_ended :: bool

datatype plugin_class = OpenTelemetryPlugin | XdistOpenTelemetryPlugin

text \<open>
  The state: the process environment, the tracer, and the attributes of the plugin
  object. A plugin attribute that has not been assigned (or was deleted) is \<open>None\<close>;
  reading it is Python's \<^verbatim>\<open>AttributeError\<close>.
\<close>

record state =
  environ :: "(string \<times> string) list"
  spans :: "span list"
  exported :: "span list"
  current_span :: "nat option"
  provider_has_force_flush :: bool
  flushes :: nat
  cls :: plugin_class
  session_name_attr :: "string option"
  trace_parent :: "context option option"
  session_span :: "nat option"
  has_error :: "bool option"
  fixture_teardown_span :: "nat option"

datatype error = AttributeError string | AssertionError

definition PYTEST_SPAN_TYPE :: string where
  "PYTEST_SPAN_TYPE = ''pytest.span_type''"

definition CODE_FILEPATH :: string where
  "CODE_FILEPATH = ''code.filepath''"

definition CODE_FUNCTION :: string where
  "CODE_FUNCTION = ''code.function''"

definition CODE_LINENO :: string where
  "CODE_LINENO = ''code.lineno''"

definition EXCEPTION_TYPE :: string where
  "EXCEPTION_TYPE = ''exception.type''"

definition EXCEPTION_MESSAGE :: string where
  "EXCEPTION_MESSAGE = ''exception.message''"

definition EXCEPTION_STACKTRACE :: string where
  "EXCEPTION_STACKTRACE = ''exception.stacktrace''"

definition EXCEPTION_ESCAPED :: string where
  "EXCEPTION_ESCAPED = ''exception.escaped''"

text \<open>A span takes changes while it is recording: it is in the store and has not ended.\<close>

definition recording :: "nat \<Rightarrow> state \<Rightarrow> bool" where
  "recording i s = (i < length (spans s) \<and> \<not> span_ended (spans s ! i))"

text \<open>
  \<^verbatim>\<open>tracer.start_span(name, context=..., attributes=...)\<close>: a new span at the end of
  the store. Its parent is the given context, or else the span that is current.
\<close>

definition new_span :: "string \<Rightarrow> context option \<Rightarrow> attributes \<Rightarrow> span" where
  "new_span nm par attrs =
     \<lparr>span_name = nm, span_parent = par, span_attributes = attrs,
      span_status = Status UNSET None, span_events = [], span_ended = False\<rparr>"

definition start_span :: "string \<Rightarrow> context option \<Rightarrow> attributes \<Rightarrow> state \<Rightarrow> nat \<times> state" where
  "start_span nm ctx attrs s =
     (length (spans s),
      s\<lparr>spans := spans s @
        [new_span nm
           (case ctx of Some c \<Rightarrow> Some c | None \<Rightarrow> map_option WithSpan (current_span s))
           attrs]\<rparr>)"

text \<open>\<^verbatim>\<open>Span.end()\<close>: the span is handed to the exporter once; a second call does nothing.\<close>

definition span_end :: "nat \<Rightarrow> state \<Rightarrow> state" where
  "span_end i s =
     (if recording i s
      then let sp = (spans s ! i)\<lparr>span_ended := True\<rparr>
           in s\<lparr>spans := (spans s)[i := sp], exported := exported s @ [sp]\<rparr>
      else s)"

text \<open>
  The methods that change a span do so only while it is recording; on an ended span
  they do nothing.
\<close>

definition on_span :: "nat \<Rightarrow> (span \<Rightarrow> span) \<Rightarrow> state \<Rightarrow> state" where
  "on_span i f s =
     (if recording i s then s\<lparr>spans := (spans s)[i := f (spans s ! i)]\<rparr> else s)"

definition update_name :: "nat \<Rightarrow> string \<Rightarrow> state \<Rightarrow> state" where
  "update_name i nm s = on_span i (\<lambda>sp. sp\<lparr>span_name := nm\<rparr>) s"

text \<open>\<^verbatim>\<open>dict.update\<close>: later keys replace earlier ones, new keys go to the end.\<close>

definition dict_update :: "attributes \<Rightarrow> attributes \<Rightarrow> attributes" where
  "dict_update new old = fold (\<lambda>(k, v). AList.update k v) new old"

text \<open>
  \<^verbatim>\<open>Span.set_attributes\<close> sets each key in turn; the span's attributes drop a key they
  already have before they set it, so that a key set again moves to the end.
\<close>

definition setitem :: "string \<Rightarrow> attr_value \<Rightarrow> attributes \<Rightarrow> attributes" where
  "setitem k v old = AList.delete k old @ [(k, v)]"

definition setitems :: "attributes \<Rightarrow> attributes \<Rightarrow> attributes" where
  "setitems new old = fold (\<lambda>(k, v). setitem k v) new old"

definition set_attributes :: "nat \<Rightarrow> attributes \<Rightarrow> state \<Rightarrow> state" where
  "set_attributes i attrs s =
     on_span i (\<lambda>sp. sp\<lparr>span_attributes := setitems attrs (span_attributes sp)\<rparr>) s"

text \<open>
  \<^verbatim>\<open>Span.set_status\<close>: a status that is already OK is final, and setting UNSET is
  ignored, as the OpenTelemetry API specifies.
\<close>

definition status_set :: "status \<Rightarrow> span \<Rightarrow> span" where
  "status_set st sp =
     (if status_code (span_status sp) \<noteq> OK \<and> status_code st \<noteq> UNSET
      then sp\<lparr>span_status := st\<rparr> else sp)"

definition set_status :: "nat \<Rightarrow> status \<Rightarrow> state \<Rightarrow> state" where
  "set_status i st s = on_span i (status_set st) s"

text \<open>
  An exception value as the plugin and the tracer read it: \<^verbatim>\<open>str(type(e))\<close>, the type
  name the tracer records, \<^verbatim>\<open>str(e)\<close> and the formatted traceback.
\<close>

record exception_value =
  exc_type_str :: string
  exc_type_name :: string
  exc_str :: string
  exc_traceback :: string

text \<open>
  \<^verbatim>\<open>Span.record_exception(exception, attributes)\<close>: one event named \<^verbatim>\<open>exception\<close>,
  whose attributes are the tracer's own, updated with the caller's.
\<close>

definition exception_event :: "exception_value \<Rightarrow> attributes \<Rightarrow> event" where
  "exception_event e attrs =
     Event ''exception''
       (dict_update attrs
          [(EXCEPTION_TYPE, AStr (exc_type_name e)),
           (EXCEPTION_MESSAGE, AStr (exc_str e)),
           (EXCEPTION_STACKTRACE, AStr (exc_traceback e)),
           (EXCEPTION_ESCAPED, AStr ''False'')])"

definition record_exception :: "nat \<Rightarrow> exception_value \<Rightarrow> attributes \<Rightarrow> state \<Rightarrow> state" where
  "record_exception i e attrs s =
     on_span i (\<lambda>sp. sp\<lparr>span_events := span_events sp @ [exception_event e attrs]\<rparr>) s"

text \<open>\<^verbatim>\<open>trace.get_current_span()\<close>; \<open>None\<close> is the tracer's non-recording span.\<close>

definition get_current_span :: "state \<Rightarrow> nat option" where
  "get_current_span s = current_span s"

text \<open>
  \<^verbatim>\<open>with tracer.start_as_current_span(...)\<close>: entering starts a span and makes it
  current, remembering the span that was current (the token); leaving restores the token
  and then ends the span. The pair (span, token) is what the suspended generator of a hook
  wrapper holds across its \<^verbatim>\<open>yield\<close>.
\<close>

type_synonym frame = "nat \<times> nat option"

definition start_as_current_span_enter ::
  "string \<Rightarrow> context option \<Rightarrow> attributes \<Rightarrow> state \<Rightarrow> frame \<times> state" where
  "start_as_current_span_enter nm ctx attrs s =
     (case start_span nm ctx attrs s of
        (i, s') \<Rightarrow> ((i, current_span s), s'\<lparr>current_span := Some i\<rparr>))"

definition start_as_current_span_exit :: "frame \<Rightarrow> state \<Rightarrow> state" where
  "start_as_current_span_exit fr s = span_end (fst fr) (s\<lparr>current_span := snd fr\<rparr>)"

section \<open>What the runner passes to the hooks\<close>

text \<open>\<^verbatim>\<open>item.location\<close> is (file path, line number or None, test name).\<close>

record item =
  item_name :: string
  nodeid :: string
  location :: "string \<times> int option \<times> string"

text \<open>
  A path is the list of its parts, as \<^verbatim>\<open>pathlib\<close> has them (the root \<^verbatim>\<open>/\<close> is the
  first part of an absolute path).
\<close>

type_synonym path = "string list"

fun join_parts :: "string list \<Rightarrow> string" where
  "join_parts [] = []"
| "join_parts [p] = p"
| "join_parts (p # q # ps) = p @ ''/'' @ join_parts (q # ps)"

definition path_str :: "path \<Rightarrow> string" where
  "path_str p =
     (case p of
        [] \<Rightarrow> ''.''
      | r # ps \<Rightarrow> (if r = ''/'' then ''/'' @ join_parts ps else join_parts (r # ps)))"

definition is_relative_to :: "path \<Rightarrow> path \<Rightarrow> bool" where
  "is_relative_to p root = (take (length root) p = root)"

definition relative_to :: "path \<Rightarrow> path \<Rightarrow> path" where
  "relative_to p root = drop (length root) p"

text \<open>
  The file that \<^verbatim>\<open>getfslineno\<close> names, a string or a path object: what \<^verbatim>\<open>str\<close>
  gives for it, and the parts of the \<^verbatim>\<open>Path\<close> made of it.
\<close>

record fspath =
  fs_str :: string
  fs_parts :: path

text \<open>
  A fixture definition: its argument name, its cached result (None once torn down),
  whether it has a location, and what
  \<^verbatim>\<open>getfslineno(resolve_fixture_function(fixturedef, request))\<close> gives for it.
\<close>

record fixturedef =
  argname :: string
  cached_result :: "unit option"
  has_location :: bool
  fslineno :: "fspath \<times> int"

record request =
  rootpath :: path

record config =
  trace_parent_option :: "string option"
  workerinput :: "(string \<times> string) list option"

record call_info =
  excinfo :: "exception_value option"

record test_report =
  report_when :: string
  outcome :: string
  longrepr :: string

section \<open>The plugin\<close>

text \<open>The \<^verbatim>\<open>session_name\<close> property: read lazily from the environment, then kept.\<close>

definition session_name :: "state \<Rightarrow> string \<times> state" where
  "session_name s =
     (case session_name_attr s of
        Some n \<Rightarrow> (n, s)
      | None \<Rightarrow>
          (let n = (case map_of (environ s) ''PYTEST_RUN_NAME'' of Some v \<Rightarrow> v | None \<Rightarrow> ''test run'')
           in (n, s\<lparr>session_name_attr := Some n\<rparr>)))"

text \<open>Python's truth value of an optional string: None and the empty string are false.\<close>

definition truthy :: "string option \<Rightarrow> bool" where
  "truthy v = (case v of None \<Rightarrow> False | Some x \<Rightarrow> x \<noteq> [])"

definition get_trace_parent :: "config \<Rightarrow> (string \<times> string) list \<Rightarrow> context option" where
  "get_trace_parent cfg env =
     (case trace_parent_option cfg of
        Some tp \<Rightarrow>
          (if tp \<noteq> [] then Some (Extracted [(''traceparent'', tp)])
           else (case map_of env ''TRACEPARENT'' of
                   Some tp' \<Rightarrow> (if tp' \<noteq> [] then Some (Extracted [(''traceparent'', tp')]) else None)
                 | None \<Rightarrow> None))
      | None \<Rightarrow>
          (case map_of env ''TRACEPARENT'' of
             Some tp' \<Rightarrow> (if tp' \<noteq> [] then Some (Extracted [(''traceparent'', tp')]) else None)
           | None \<Rightarrow> None))"

text \<open>The xdist-aware class looks at the worker's handshake payload first.\<close>

definition xdist_get_trace_parent :: "config \<Rightarrow> (string \<times> string) list \<Rightarrow> context option" where
  "xdist_get_trace_parent cfg env =
     (case workerinput cfg of
        Some wi \<Rightarrow> (if wi \<noteq> [] then Some (Extracted wi) else get_trace_parent cfg env)
      | None \<Rightarrow> get_trace_parent cfg env)"

definition try_force_flush :: "state \<Rightarrow> bool \<times> state" where
  "try_force_flush s =
     (if provider_has_force_flush s then (True, s\<lparr>flushes := flushes s + 1\<rparr>) else (False, s))"

text \<open>
  \<^verbatim>\<open>pytest_configure\<close>: the parent context is resolved by the class's own
  \<^verbatim>\<open>get_trace_parent\<close>. Configuring the exporter and the resource detectors does not
  touch the state modelled here. The xdist class then names the session after its worker.
\<close>

definition pytest_configure :: "config \<Rightarrow> state \<Rightarrow> state" where
  "pytest_configure cfg s =
     (case cls s of
        OpenTelemetryPlugin \<Rightarrow> s\<lparr>trace_parent := Some (get_trace_parent cfg (environ s))\<rparr>
      | XdistOpenTelemetryPlugin \<Rightarrow>
          (let s1 = s\<lparr>trace_parent := Some (xdist_get_trace_parent cfg (environ s))\<rparr>;
               worker_id = (case workerinput cfg of None \<Rightarrow> None | Some wi \<Rightarrow> map_of wi ''workerid'')
           in (case worker_id of
                 Some w \<Rightarrow>
                   (if w \<noteq> [] then s1\<lparr>session_name_attr := Some (''test worker '' @ w)\<rparr>
                    else (case session_name s1 of (n, s2) \<Rightarrow> s2\<lparr>session_name_attr := Some n\<rparr>))
               | None \<Rightarrow> (case session_name s1 of (n, s2) \<Rightarrow> s2\<lparr>session_name_attr := Some n\<rparr>))))"

definition pytest_sessionstart :: "state \<Rightarrow> error + state" where
  "pytest_sessionstart s =
     (case session_name s of
        (n, s1) \<Rightarrow>
          (case trace_parent s1 of
             None \<Rightarrow> Inl (AttributeError ''trace_parent'')
           | Some tp \<Rightarrow>
               (case start_span n tp [(PYTEST_SPAN_TYPE, AStr ''run'')] s1 of
                  (i, s2) \<Rightarrow> Inr (s2\<lparr>session_span := Some i, has_error := Some False\<rparr>))))"

definition pytest_sessionfinish :: "state \<Rightarrow> error + state" where
  "pytest_sessionfinish s =
     (case session_span s of
        None \<Rightarrow> Inl (AttributeError ''session_span'')
      | Some i \<Rightarrow>
          (case has_error s of
             None \<Rightarrow> Inl (AttributeError ''has_error'')
           | Some e \<Rightarrow>
               Inr (snd (try_force_flush
                     (span_end i (set_status i (Status (if e then ERROR else OK) None) s))))))"

text \<open>
  The four test-level hooks build the same attribute dictionary, up to the span type:
  the line number is stored only when it is truthy (neither None nor zero).
\<close>

definition item_attributes :: "item \<Rightarrow> string \<Rightarrow> attributes" where
  "item_attributes it span_type =
     (case location it of
        (filepath, line_number, _) \<Rightarrow>
          [(CODE_FILEPATH, AStr filepath),
           (CODE_FUNCTION, AStr (item_name it)),
           (''pytest.nodeid'', AStr (nodeid it)),
           (PYTEST_SPAN_TYPE, AStr span_type)] @
          (case line_number of
             None \<Rightarrow> []
           | Some n \<Rightarrow> (if n \<noteq> 0 then [(CODE_LINENO, AInt n)] else [])))"

text \<open>
  Each hook wrapper is split at its \<^verbatim>\<open>yield\<close>: the first half returns what the
  suspended generator holds, the second half takes it back.
\<close>

definition pytest_runtest_protocol_pre :: "item \<Rightarrow> state \<Rightarrow> error + (frame \<times> state)" where
  "pytest_runtest_protocol_pre it s =
     (case session_span s of
        None \<Rightarrow> Inl (AttributeError ''session_span'')
      | Some r \<Rightarrow>
          Inr (start_as_current_span_enter (item_name it) (Some (WithSpan r))
                 (item_attributes it ''test'') s))"

definition pytest_runtest_protocol_post :: "frame \<Rightarrow> state \<Rightarrow> state" where
  "pytest_runtest_protocol_post fr s = start_as_current_span_exit fr s"

definition pytest_runtest_setup_pre :: "item \<Rightarrow> state \<Rightarrow> frame \<times> state" where
  "pytest_runtest_setup_pre it s =
     start_as_current_span_enter (item_name it @ '' setup'') None
       (item_attributes it ''test setup'') s"

definition pytest_runtest_setup_post :: "frame \<Rightarrow> state \<Rightarrow> state" where
  "pytest_runtest_setup_post fr s = start_as_current_span_exit fr s"

definition pytest_runtest_call_pre :: "item \<Rightarrow> state \<Rightarrow> frame \<times> state" where
  "pytest_runtest_call_pre it s =
     start_as_current_span_enter (item_name it @ '' call'') None
       (item_attributes it ''test call'') s"

definition pytest_runtest_call_post :: "frame \<Rightarrow> state \<Rightarrow> state" where
  "pytest_runtest_call_post fr s = start_as_current_span_exit fr s"

text \<open>
  The teardown wrapper also opens the first placeholder span, under a temporary name,
  and deletes the attribute holding the last placeholder once the phase span is closed.
\<close>

definition pytest_runtest_teardown_pre :: "item \<Rightarrow> state \<Rightarrow> frame \<times> state" where
  "pytest_runtest_teardown_pre it s =
     (case start_as_current_span_enter (item_name it @ '' teardown'') None
             (item_attributes it ''test teardown'') s of
        (fr, s1) \<Rightarrow>
          (case start_span ''fixture teardown'' None [] s1 of
             (p, s2) \<Rightarrow> (fr, s2\<lparr>fixture_teardown_span := Some p\<rparr>)))"

definition pytest_runtest_teardown_post :: "frame \<Rightarrow> state \<Rightarrow> error + state" where
  "pytest_runtest_teardown_post fr s =
     (let s1 = start_as_current_span_exit fr s
      in (case fixture_teardown_span s1 of
            None \<Rightarrow> Inl (AttributeError ''fixture_teardown_span'')
          | Some p \<Rightarrow> Inr (s1\<lparr>fixture_teardown_span := None\<rparr>)))"

text \<open>
  The location attributes of a fixture span: the file relative to the root path when it is
  inside it, and as \<^verbatim>\<open>getfslineno\<close> gave it otherwise.
\<close>

definition fixture_attributes :: "fixturedef \<Rightarrow> request \<Rightarrow> string \<Rightarrow> attributes" where
  "fixture_attributes fd req span_type =
     [(PYTEST_SPAN_TYPE, AStr span_type)] @
     (if has_location fd
      then (case fslineno fd of
              (filepath, line_number) \<Rightarrow>
                [(CODE_FILEPATH,
                  AStr (if is_relative_to (fs_parts filepath) (rootpath req)
                        then path_str (relative_to (fs_parts filepath) (rootpath req))
                        else fs_str filepath))] @
                (if line_number \<noteq> 0 then [(CODE_LINENO, AInt line_number)] else []))
      else [])"

definition pytest_fixture_setup_pre :: "fixturedef \<Rightarrow> request \<Rightarrow> state \<Rightarrow> frame \<times> state" where
  "pytest_fixture_setup_pre fd req s =
     start_as_current_span_enter (argname fd @ '' setup'') None
       (fixture_attributes fd req ''fixture setup'') s"

definition pytest_fixture_setup_post :: "frame \<Rightarrow> state \<Rightarrow> state" where
  "pytest_fixture_setup_post fr s = start_as_current_span_exit fr s"

text \<open>
  \<^verbatim>\<open>pytest_fixture_post_finalizer\<close> has three paths; the generator remembers which
  one it is suspended in.
\<close>

datatype finalizer_frame = NoPlaceholder | NoCachedResult | Finalizing

definition pytest_fixture_post_finalizer_pre ::
  "fixturedef \<Rightarrow> request \<Rightarrow> state \<Rightarrow> finalizer_frame \<times> state" where
  "pytest_fixture_post_finalizer_pre fd req s =
     (case fixture_teardown_span s of
        None \<Rightarrow> (NoPlaceholder, s)
      | Some p \<Rightarrow>
          (if cached_result fd = None then (NoCachedResult, s)
           else (Finalizing,
                 set_attributes p (fixture_attributes fd req ''fixture teardown'')
                   (update_name p (argname fd @ '' teardown'') s))))"

definition pytest_fixture_post_finalizer_post :: "finalizer_frame \<Rightarrow> state \<Rightarrow> error + state" where
  "pytest_fixture_post_finalizer_post fr s =
     (case fr of
        NoPlaceholder \<Rightarrow>
          (case start_span ''fixture teardown'' None [] s of
             (p, s1) \<Rightarrow> Inr (s1\<lparr>fixture_teardown_span := Some p\<rparr>))
      | NoCachedResult \<Rightarrow>
          (case start_span ''fixture teardown'' None [] s of
             (p, s1) \<Rightarrow> Inr (s1\<lparr>fixture_teardown_span := Some p\<rparr>))
      | Finalizing \<Rightarrow>
          (case fixture_teardown_span s of
             None \<Rightarrow> Inl (AttributeError ''fixture_teardown_span'')
           | Some p \<Rightarrow>
               (case start_span ''fixture teardown'' None [] (span_end p s) of
                  (q, s1) \<Rightarrow> Inr (s1\<lparr>fixture_teardown_span := Some q\<rparr>))))"

definition pytest_exception_interact :: "call_info \<Rightarrow> test_report \<Rightarrow> state \<Rightarrow> error + state" where
  "pytest_exception_interact call report s =
     (case excinfo call of
        None \<Rightarrow> Inl AssertionError
      | Some e \<Rightarrow>
          (case get_current_span s of
             None \<Rightarrow> Inr s
           | Some test_span \<Rightarrow>
               Inr (set_status test_span
                      (Status ERROR (Some (exc_type_str e @ '': '' @ exc_str e)))
                      (record_exception test_span e
                         [(EXCEPTION_STACKTRACE, AStr (longrepr report))] s))))"

definition pytest_runtest_logreport :: "test_report \<Rightarrow> state \<Rightarrow> error + state" where
  "pytest_runtest_logreport report s =
     (if report_when report \<noteq> ''call'' then Inr s
      else (let failed = (outcome report = ''failed'')
            in (case has_error s of
                  None \<Rightarrow> Inl (AttributeError ''has_error'')
                | Some h \<Rightarrow>
                    (let s1 = s\<lparr>has_error := Some (h \<or> failed)\<rparr>
                     in (case get_current_span s1 of
                           None \<Rightarrow> Inr s1
                         | Some i \<Rightarrow>
                             Inr (set_status i (Status (if failed then ERROR else OK) None) s1))))))"

section \<open>Notifications\<close>

text \<open>
  One constructor per hook. A hook wrapper carries the notifications the runner sends
  while the wrapper is suspended at its \<^verbatim>\<open>yield\<close>.
\<close>

datatype notification =
    Configure config
  | SessionStart
  | SessionFinish
  | RuntestProtocol item "notification list"
  | RuntestSetup item "notification list"
  | RuntestCall item "notification list"
  | RuntestTeardown item "notification list"
  | FixtureSetup fixturedef request "notification list"
  | FixturePostFinalizer fixturedef request "notification list"
  | ExceptionInteract call_info test_report
  | RuntestLogreport test_report

fun handle :: "notification \<Rightarrow> state \<Rightarrow> error + state"
  and handle_all :: "notification list \<Rightarrow> state \<Rightarrow> error + state" where
  "handle (Configure cfg) s = Inr (pytest_configure cfg s)"
| "handle SessionStart s = pytest_sessionstart s"
| "handle SessionFinish s = pytest_sessionfinish s"
| "handle (RuntestProtocol it inner) s =
     (case pytest_runtest_protocol_pre it s of
        Inl e \<Rightarrow> Inl e
      | Inr (fr, s1) \<Rightarrow>
          (case handle_all inner s1 of
             Inl e \<Rightarrow> Inl e
           | Inr s2 \<Rightarrow> Inr (pytest_runtest_protocol_post fr s2)))"
| "handle (RuntestSetup it inner) s =
     (case pytest_runtest_setup_pre it s of
        (fr, s1) \<Rightarrow>
          (case handle_all inner s1 of
             Inl e \<Rightarrow> Inl e
           | Inr s2 \<Rightarrow> Inr (pytest_runtest_setup_post fr s2)))"
| "handle (RuntestCall it inner) s =
     (case pytest_runtest_call_pre it s of
        (fr, s1) \<Rightarrow>
          (case handle_all inner s1 of
             Inl e \<Rightarrow> Inl e
           | Inr s2 \<Rightarrow> Inr (pytest_runtest_call_post fr s2)))"
| "handle (RuntestTeardown it inner) s =
     (case pytest_runtest_teardown_pre it s of
        (fr, s1) \<Rightarrow>
          (case handle_all inner s1 of
             Inl e \<Rightarrow> Inl e
           | Inr s2 \<Rightarrow> pytest_runtest_teardown_post fr s2))"
| "handle (FixtureSetup fd req inner) s =
     (case pytest_fixture_setup_pre fd req s of
        (fr, s1) \<Rightarrow>
          (case handle_all inner s1 of
             Inl e \<Rightarrow> Inl e
           | Inr s2 \<Rightarrow> Inr (pytest_fixture_setup_post fr s2)))"
| "handle (FixturePostFinalizer fd req inner) s =
     (case pytest_fixture_post_finalizer_pre fd req s of
        (fr, s1) \<Rightarrow>
          (case handle_all inner s1 of
             Inl e \<Rightarrow> Inl e
           | Inr s2 \<Rightarrow> pytest_fixture_post_finalizer_post fr s2))"
| "handle (ExceptionInteract call report) s = pytest_exception_interact call report s"
| "handle (RuntestLogreport report) s = pytest_runtest_logreport report s"
| "handle_all [] s = Inr s"
| "handle_all (n # ns) s =
     (case handle n s of
        Inl e \<Rightarrow> Inl e
      | Inr s' \<Rightarrow> handle_all ns s')"

section \<open>The runner's protocol for one item\<close>

text \<open>
  The runner is not part of the repository. For one phase it calls the phase's hook,
  logs the report and, when the phase raised, reports the exception; it runs the call
  phase only after a setup phase that passed, and always runs the teardown phase.
\<close>

datatype phase_result = Passed | Skipped | Failed exception_value string

definition make_report :: "string \<Rightarrow> phase_result \<Rightarrow> test_report" where
  "make_report w r =
     \<lparr>report_when = w,
      outcome = (case r of Passed \<Rightarrow> ''passed'' | Skipped \<Rightarrow> ''skipped'' | Failed _ _ \<Rightarrow> ''failed''),
      longrepr = (case r of Failed _ l \<Rightarrow> l | _ \<Rightarrow> [])\<rparr>"

definition call_and_report ::
  "(notification list \<Rightarrow> notification) \<Rightarrow> string \<Rightarrow> notification list \<Rightarrow> phase_result
     \<Rightarrow> notification list" where
  "call_and_report hook w inner r =
     [hook inner, RuntestLogreport (make_report w r)] @
     (case r of
        Failed e l \<Rightarrow> [ExceptionInteract \<lparr>excinfo = Some e\<rparr> (make_report w r)]
      | _ \<Rightarrow> [])"

record item_run =
  run_item :: item
  setup_inner :: "notification list"
  setup_result :: phase_result
  call_inner :: "notification list"
  call_result :: phase_result
  teardown_inner :: "notification list"
  teardown_result :: phase_result

definition runtestprotocol :: "item_run \<Rightarrow> notification" where
  "runtestprotocol ir =
     RuntestProtocol (run_item ir)
       (call_and_report (RuntestSetup (run_item ir)) ''setup'' (setup_inner ir) (setup_result ir) @
        (if setup_result ir = Passed
         then call_and_report (RuntestCall (run_item ir)) ''call'' (call_inner ir) (call_result ir)
         else []) @
        call_and_report (RuntestTeardown (run_item ir)) ''teardown'' (teardown_inner ir)
          (teardown_result ir))"

text \<open>A finalizer notification with nothing nested in it.\<close>

definition finalize :: "fixturedef \<times> request \<Rightarrow> notification" where
  "finalize fr = FixturePostFinalizer (fst fr) (snd fr) []"

text \<open>Fixture set-ups, each possibly requesting further fixtures, and nothing else.\<close>

fun is_fixture_setup :: "notification \<Rightarrow> bool"
  and are_fixture_setups :: "notification list \<Rightarrow> bool" where
  "is_fixture_setup (FixtureSetup fd req inner) = are_fixture_setups inner"
| "is_fixture_setup (Configure cfg) = False"
| "is_fixture_setup SessionStart = False"
| "is_fixture_setup SessionFinish = False"
| "is_fixture_setup (RuntestProtocol it inner) = False"
| "is_fixture_setup (RuntestSetup it inner) = False"
| "is_fixture_setup (RuntestCall it inner) = False"
| "is_fixture_setup (RuntestTeardown it inner) = False"
| "is_fixture_setup (FixturePostFinalizer fd req inner) = False"
| "is_fixture_setup (ExceptionInteract call report) = False"
| "is_fixture_setup (RuntestLogreport report) = False"
| "are_fixture_setups [] = True"
| "are_fixture_setups (n # ns) = (is_fixture_setup n \<and> are_fixture_setups ns)"

text \<open>Every notification of a run, the nested ones included.\<close>

fun flatten :: "notification \<Rightarrow> notification list"
  and flatten_all :: "notification list \<Rightarrow> notification list" where
  "flatten (RuntestProtocol it inner) = RuntestProtocol it inner # flatten_all inner"
| "flatten (RuntestSetup it inner) = RuntestSetup it inner # flatten_all inner"
| "flatten (RuntestCall it inner) = RuntestCall it inner # flatten_all inner"
| "flatten (RuntestTeardown it inner) = RuntestTeardown it inner # flatten_all inner"
| "flatten (FixtureSetup fd req inner) = FixtureSetup fd req inner # flatten_all inner"
| "flatten (FixturePostFinalizer fd req inner) = FixturePostFinalizer fd req inner # flatten_all inner"
| "flatten (Configure cfg) = [Configure cfg]"
| "flatten SessionStart = [SessionStart]"
| "flatten SessionFinish = [SessionFinish]"
| "flatten (ExceptionInteract call report) = [ExceptionInteract call report]"
| "flatten (RuntestLogreport report) = [RuntestLogreport report]"
| "flatten_all [] = []"
| "flatten_all (n # ns) = flatten n @ flatten_all ns"

definition is_failed_call_report :: "notification \<Rightarrow> bool" where
  "is_failed_call_report n =
     (case n of
        RuntestLogreport report \<Rightarrow> report_when report = ''call'' \<and> outcome report = ''failed''
      | _ \<Rightarrow> False)"

text \<open>The span type a span was tagged with, if any.\<close>

definition span_type :: "span \<Rightarrow> attr_value option" where
  "span_type sp = map_of (span_attributes sp) PYTEST_SPAN_TYPE"

definition lineno :: "span \<Rightarrow> attr_value option" where
  "lineno sp = map_of (span_attributes sp) CODE_LINENO"

text \<open>
  The placeholder as \<^verbatim>\<open>tracer.start_span("fixture teardown")\<close> leaves it in the store
  when \<open>cur\<close> is current, and the span a finalizer notification with a cached result makes
  of it.
\<close>

definition placeholder :: "nat option \<Rightarrow> span" where
  "placeholder cur = new_span ''fixture teardown'' (map_option WithSpan cur) []"

definition finalized :: "nat option \<Rightarrow> fixturedef \<times> request \<Rightarrow> span" where
  "finalized cur fr =
     (new_span (argname (fst fr) @ '' teardown'') (map_option WithSpan cur)
        (setitems (fixture_attributes (fst fr) (snd fr) ''fixture teardown'') []))
     \<lparr>span_ended := True\<rparr>"

text \<open>The span of a phase of an item, as it is reported when the phase ends.\<close>

definition phase_span :: "nat option \<Rightarrow> item \<Rightarrow> string \<Rightarrow> span" where
  "phase_span cur it phase =
     (new_span (item_name it @ '' '' @ phase) (map_option WithSpan cur)
        (item_attributes it (''test '' @ phase)))
     \<lparr>span_ended := True\<rparr>"

text \<open>
  What a phase's report and, after a failure, its exception interaction make of the span
  that is current when the runner sends them.
\<close>

definition is_failed :: "phase_result \<Rightarrow> bool" where
  "is_failed r = (case r of Failed _ _ \<Rightarrow> True | _ \<Rightarrow> False)"

definition after_report :: "string \<Rightarrow> phase_result \<Rightarrow> span \<Rightarrow> span" where
  "after_report w r sp =
     (let sp1 = (if w = ''call''
                 then status_set (Status (if is_failed r then ERROR else OK) None) sp
                 else sp)
      in (case r of
            Failed e l \<Rightarrow>
              status_set (Status ERROR (Some (exc_type_str e @ '': '' @ exc_str e)))
                (sp1\<lparr>span_events := span_events sp1 @
                       [exception_event e [(EXCEPTION_STACKTRACE, AStr l)]]\<rparr>)
          | _ \<Rightarrow> sp1))"

text \<open>The spans of the three phases of an item, told by their span type.\<close>

definition is_phase_span :: "span \<Rightarrow> bool" where
  "is_phase_span sp =
     (span_type sp = Some (AStr ''test setup'') \<or> span_type sp = Some (AStr ''test call'') \<or>
      span_type sp = Some (AStr ''test teardown''))"

text \<open>The spans of an item itself: its test span and its phase spans.\<close>

definition is_item_span :: "span \<Rightarrow> bool" where
  "is_item_span sp = (span_type sp = Some (AStr ''test'') \<or> is_phase_span sp)"

text \<open>
  The line-number attribute the hooks are meant to give a span: none for a line number
  that is None or zero.
\<close>

definition lineno_of :: "int option \<Rightarrow> attr_value option" where
  "lineno_of line_number =
     (case line_number of None \<Rightarrow> None | Some n \<Rightarrow> (if n = 0 then None else Some (AInt n)))"

text \<open>What every reported fixture set-up span looks like.\<close>

definition fixture_setup_span :: "span \<Rightarrow> bool" where
  "fixture_setup_span sp =
     (span_type sp = Some (AStr ''fixture setup'') \<and> span_status sp = Status UNSET None \<and>
      span_events sp = [] \<and> span_ended sp)"

definition has_cached_result :: "fixturedef \<times> request \<Rightarrow> bool" where
  "has_cached_result fr = (cached_result (fst fr) \<noteq> None)"

text \<open>
  How the error flag may differ between two states of a run whose notifications are
  \<open>ns\<close>: not at all, or reset by a session start, or raised by a failed call report.
\<close>

definition flag_step :: "notification list \<Rightarrow> state \<Rightarrow> state \<Rightarrow> bool" where
  "flag_step ns s s' =
     (has_error s' = has_error s \<or>
      (has_error s' = Some False \<and> SessionStart \<in> set ns) \<or>
      (has_error s' = Some True \<and> list_ex is_failed_call_report ns))"

section \<open>A sample session\<close>

text \<open>
  Concrete values on which the properties below are instantiated: a plugin object
  before any hook has run, the tests and fixtures of a small test file, and the state of
  the plugin once the session has started.
\<close>

definition new_plugin :: state where
  "new_plugin =
     \<lparr>environ = [], spans = [], exported = [], current_span = None,
      provider_has_force_flush = True, flushes = 0, cls = OpenTelemetryPlugin,
      session_name_attr = None, trace_parent = None, session_span = None, has_error = None,
      fixture_teardown_span = None\<rparr>"

definition running :: state where
  "running =
     \<lparr>environ = [], spans = [new_span ''test run'' None [(PYTEST_SPAN_TYPE, AStr ''run'')]],
      exported = [], current_span = None,
      provider_has_force_flush = True, flushes = 0, cls = OpenTelemetryPlugin,
      session_name_attr = Some ''test run'', trace_parent = Some None, session_span = Some 0,
      has_error = Some False, fixture_teardown_span = None\<rparr>"

definition test_one :: item where
  "test_one =
     \<lparr>item_name = ''test_one'', nodeid = ''test_sample.py::test_one'',
      location = (''test_sample.py'', Some 0, ''test_one'')\<rparr>"

definition test_two :: item where
  "test_two =
     \<lparr>item_name = ''test_two'', nodeid = ''test_sample.py::test_two'',
      location = (''test_sample.py'', Some 3, ''test_two'')\<rparr>"

definition the_request :: request where
  "the_request = \<lparr>rootpath = [''/'', ''repo'']\<rparr>"

definition fixture_a :: fixturedef where
  "fixture_a =
     \<lparr>argname = ''fixture_a'', cached_result = Some (), has_location = True,
      fslineno = (\<lparr>fs_str = ''/repo/test_sample.py'',
                    fs_parts = [''/'', ''repo'', ''test_sample.py'']\<rparr>, 5)\<rparr>"

definition fixture_b :: fixturedef where
  "fixture_b =
     \<lparr>argname = ''fixture_b'', cached_result = Some (), has_location = True,
      fslineno = (\<lparr>fs_str = ''/repo/test_sample.py'',
                    fs_parts = [''/'', ''repo'', ''test_sample.py'']\<rparr>, 9)\<rparr>"

definition assertion_error :: exception_value where
  "assertion_error =
     \<lparr>exc_type_str = ''<class AssertionError>'', exc_type_name = ''AssertionError'',
      exc_str = ''assert 4 == 5'', exc_traceback = ''Traceback''\<rparr>"

definition plain_run :: "item \<Rightarrow> item_run" where
  "plain_run it =
     \<lparr>run_item = it, setup_inner = [], setup_result = Passed, call_inner = [],
      call_result = Passed, teardown_inner = [], teardown_result = Passed\<rparr>"

section \<open>Properties of the tracer and of whole runs\<close>

lemma span_end_at:
  "spans s = xs @ sp # ys \<Longrightarrow> \<not> span_ended sp \<Longrightarrow>
   span_end (length xs) s =
     s\<lparr>spans := xs @ sp\<lparr>span_ended := True\<rparr> # ys,
       exported := exported s @ [sp\<lparr>span_ended := True\<rparr>]\<rparr>"
  by (simp add: span_end_def recording_def Let_def)

lemma on_span_at:
  "spans s = xs @ sp # ys \<Longrightarrow> \<not> span_ended sp \<Longrightarrow>
   on_span (length xs) f s = s\<lparr>spans := xs @ f sp # ys\<rparr>"
  by (simp add: on_span_def recording_def)

lemma status_set_ended [simp]: "span_ended (status_set st sp) = span_ended sp"
  by (simp add: status_set_def)

lemma after_report_ended [simp]: "span_ended (after_report w r sp) = span_ended sp"
  by (simp add: after_report_def Let_def split: phase_result.splits)

lemma handle_all_append:
  "handle_all (ms @ ns) s =
     (case handle_all ms s of Inl e \<Rightarrow> Inl e | Inr s' \<Rightarrow> handle_all ns s')"
  by (induction ms arbitrary: s) (simp_all split: sum.splits)

lemma finalize_step:
  assumes "spans s = base @ [placeholder (current_span s)]"
    and "fixture_teardown_span s = Some (length base)"
  shows "handle (finalize fr) s =
     Inr (s\<lparr>spans := base @
             [if has_cached_result fr then finalized (current_span s) fr
              else placeholder (current_span s),
              placeholder (current_span s)],
           exported := exported s @
             (if has_cached_result fr then [finalized (current_span s) fr] else []),
           fixture_teardown_span := Some (Suc (length base))\<rparr>)"
  using assms
  by (simp add: finalize_def has_cached_result_def pytest_fixture_post_finalizer_pre_def
      pytest_fixture_post_finalizer_post_def update_name_def set_attributes_def on_span_def
      span_end_def recording_def start_span_def placeholder_def finalized_def new_span_def Let_def)

lemma finalizers_run:
  assumes "spans s = base @ [placeholder (current_span s)]"
    and "fixture_teardown_span s = Some (length base)"
  shows "handle_all (map finalize fds) s =
     Inr (s\<lparr>spans := base @
             map (\<lambda>fr. if has_cached_result fr then finalized (current_span s) fr
                       else placeholder (current_span s)) fds @
             [placeholder (current_span s)],
           exported := exported s @ map (finalized (current_span s)) (filter has_cached_result fds),
           fixture_teardown_span := Some (length base + length fds)\<rparr>)"
  using assms
proof (induction fds arbitrary: s base)
  case Nil
  then show ?case by simp
next
  case (Cons fr fds)
  let ?x = "if has_cached_result fr then finalized (current_span s) fr
            else placeholder (current_span s)"
  let ?s1 = "s\<lparr>spans := base @ [?x, placeholder (current_span s)],
           exported := exported s @
             (if has_cached_result fr then [finalized (current_span s) fr] else []),
           fixture_teardown_span := Some (Suc (length base))\<rparr>"
  have step: "handle (finalize fr) s = Inr ?s1"
    using Cons.prems by (rule finalize_step)
  have "spans ?s1 = (base @ [?x]) @ [placeholder (current_span ?s1)]"
    and "fixture_teardown_span ?s1 = Some (length (base @ [?x]))"
    by simp_all
  from Cons.IH[OF this] step show ?case
    by simp
qed

lemma teardown_run:
  "handle (RuntestTeardown it (map finalize fds)) s =
     Inr (s\<lparr>spans := spans s @ phase_span (current_span s) it ''teardown'' #
             map (\<lambda>fr. if has_cached_result fr then finalized (Some (length (spans s))) fr
                       else placeholder (Some (length (spans s)))) fds @
             [placeholder (Some (length (spans s)))],
           exported := exported s @
             map (finalized (Some (length (spans s)))) (filter has_cached_result fds) @
             [phase_span (current_span s) it ''teardown''],
           fixture_teardown_span := None\<rparr>)"
proof -
  let ?n = "length (spans s)"
  let ?D = "new_span (item_name it @ '' teardown'') (map_option WithSpan (current_span s))
              (item_attributes it ''test teardown'')"
  let ?s1 = "s\<lparr>spans := spans s @ [?D, placeholder (Some ?n)], current_span := Some ?n,
               fixture_teardown_span := Some (Suc ?n)\<rparr>"
  have pre: "pytest_runtest_teardown_pre it s = ((?n, current_span s), ?s1)"
    by (simp add: pytest_runtest_teardown_pre_def start_as_current_span_enter_def start_span_def
        placeholder_def)
  have "spans ?s1 = (spans s @ [?D]) @ [placeholder (current_span ?s1)]"
    and "fixture_teardown_span ?s1 = Some (length (spans s @ [?D]))"
    by simp_all
  note run = finalizers_run[OF this, of fds]
  have D: "\<not> span_ended ?D" "?D\<lparr>span_ended := True\<rparr> = phase_span (current_span s) it ''teardown''"
    by (simp_all add: new_span_def phase_span_def)
  show ?thesis
    by (simp add: pre run pytest_runtest_teardown_post_def start_as_current_span_exit_def
        span_end_at[where xs = "spans s" and sp = ?D] D Let_def)
qed

lemma fixture_setups_run:
  "is_fixture_setup n \<longrightarrow>
     (\<exists>ys xs. handle n s = Inr (s\<lparr>spans := spans s @ ys, exported := exported s @ xs\<rparr>) \<and>
        list_all fixture_setup_span ys \<and> list_all fixture_setup_span xs \<and>
        length ys = length (flatten n) \<and> length xs = length (flatten n))"
  "are_fixture_setups ns \<longrightarrow>
     (\<exists>ys xs. handle_all ns s = Inr (s\<lparr>spans := spans s @ ys, exported := exported s @ xs\<rparr>) \<and>
        list_all fixture_setup_span ys \<and> list_all fixture_setup_span xs \<and>
        length ys = length (flatten_all ns) \<and> length xs = length (flatten_all ns))"
proof (induction n s and ns s rule: handle_handle_all.induct)
  case (8 fd req inner s)
  show ?case
  proof
    assume "is_fixture_setup (FixtureSetup fd req inner)"
    then have inner: "are_fixture_setups inner" by simp
    let ?n = "length (spans s)"
    let ?F = "new_span (argname fd @ '' setup'') (map_option WithSpan (current_span s))
                (fixture_attributes fd req ''fixture setup'')"
    let ?s1 = "s\<lparr>spans := spans s @ [?F], current_span := Some ?n\<rparr>"
    have pre: "pytest_fixture_setup_pre fd req s = ((?n, current_span s), ?s1)"
      by (simp add: pytest_fixture_setup_pre_def start_as_current_span_enter_def start_span_def)
    from 8[OF pre[symmetric]] inner obtain ys xs where
      run: "handle_all inner ?s1 = Inr (?s1\<lparr>spans := spans ?s1 @ ys, exported := exported ?s1 @ xs\<rparr>)"
      and ys: "list_all fixture_setup_span ys" and xs: "list_all fixture_setup_span xs"
      and len: "length ys = length (flatten_all inner)" "length xs = length (flatten_all inner)"
      by blast
    have F: "\<not> span_ended ?F" "fixture_setup_span (?F\<lparr>span_ended := True\<rparr>)"
      by (simp_all add: new_span_def fixture_setup_span_def span_type_def fixture_attributes_def)
    have "handle (FixtureSetup fd req inner) s =
        Inr (s\<lparr>spans := spans s @ (?F\<lparr>span_ended := True\<rparr> # ys),
               exported := exported s @ (xs @ [?F\<lparr>span_ended := True\<rparr>])\<rparr>)"
      by (simp add: pre run pytest_fixture_setup_post_def start_as_current_span_exit_def
          span_end_at[where xs = "spans s" and sp = ?F and ys = ys] F)
    with ys xs F len show "\<exists>ys xs. handle (FixtureSetup fd req inner) s =
        Inr (s\<lparr>spans := spans s @ ys, exported := exported s @ xs\<rparr>) \<and>
        list_all fixture_setup_span ys \<and> list_all fixture_setup_span xs \<and>
        length ys = length (flatten (FixtureSetup fd req inner)) \<and>
        length xs = length (flatten (FixtureSetup fd req inner))"
      by (intro exI[of _ "?F\<lparr>span_ended := True\<rparr> # ys"] exI[of _ "xs @ [?F\<lparr>span_ended := True\<rparr>]"]) simp
  qed
next
  case (12 s)
  show ?case by (simp add: exI[of _ "[]"])
next
  case (13 n ns s)
  show ?case
  proof
    assume "are_fixture_setups (n # ns)"
    then have n: "is_fixture_setup n" and ns: "are_fixture_setups ns" by simp_all
    from 13(1) n obtain ys xs where
      h: "handle n s = Inr (s\<lparr>spans := spans s @ ys, exported := exported s @ xs\<rparr>)"
      and ys: "list_all fixture_setup_span ys" and xs: "list_all fixture_setup_span xs"
      and len: "length ys = length (flatten n)" "length xs = length (flatten n)"
      by blast
    let ?s1 = "s\<lparr>spans := spans s @ ys, exported := exported s @ xs\<rparr>"
    from 13(2)[OF h] ns obtain ys' xs' where
      h': "handle_all ns ?s1 = Inr (?s1\<lparr>spans := spans ?s1 @ ys', exported := exported ?s1 @ xs'\<rparr>)"
      and ys': "list_all fixture_setup_span ys'" and xs': "list_all fixture_setup_span xs'"
      and len': "length ys' = length (flatten_all ns)" "length xs' = length (flatten_all ns)"
      by blast
    have "handle_all (n # ns) s =
        Inr (s\<lparr>spans := spans s @ (ys @ ys'), exported := exported s @ (xs @ xs')\<rparr>)"
      by (simp add: h h')
    with ys xs ys' xs' len len' show "\<exists>ys xs. handle_all (n # ns) s =
        Inr (s\<lparr>spans := spans s @ ys, exported := exported s @ xs\<rparr>) \<and>
        list_all fixture_setup_span ys \<and> list_all fixture_setup_span xs \<and>
        length ys = length (flatten_all (n # ns)) \<and> length xs = length (flatten_all (n # ns))"
      by (intro exI[of _ "ys @ ys'"] exI[of _ "xs @ xs'"]) simp
  qed
qed simp_all

lemma setup_run:
  assumes "are_fixture_setups inner"
  shows "\<exists>ys xs. handle (RuntestSetup it inner) s =
       Inr (s\<lparr>spans := spans s @ phase_span (current_span s) it ''setup'' # ys,
              exported := exported s @ xs @ [phase_span (current_span s) it ''setup'']\<rparr>) \<and>
       list_all fixture_setup_span ys \<and> list_all fixture_setup_span xs \<and>
       length ys = length (flatten_all inner) \<and> length xs = length (flatten_all inner)"
proof -
  let ?n = "length (spans s)"
  let ?S = "new_span (item_name it @ '' setup'') (map_option WithSpan (current_span s))
              (item_attributes it ''test setup'')"
  let ?s1 = "s\<lparr>spans := spans s @ [?S], current_span := Some ?n\<rparr>"
  have pre: "pytest_runtest_setup_pre it s = ((?n, current_span s), ?s1)"
    by (simp add: pytest_runtest_setup_pre_def start_as_current_span_enter_def start_span_def)
  from fixture_setups_run(2)[of inner ?s1] assms obtain ys xs where
    run: "handle_all inner ?s1 = Inr (?s1\<lparr>spans := spans ?s1 @ ys, exported := exported ?s1 @ xs\<rparr>)"
    and ys: "list_all fixture_setup_span ys" and xs: "list_all fixture_setup_span xs"
    and len: "length ys = length (flatten_all inner)" "length xs = length (flatten_all inner)"
    by blast
  have S: "\<not> span_ended ?S" "?S\<lparr>span_ended := True\<rparr> = phase_span (current_span s) it ''setup''"
    by (simp_all add: new_span_def phase_span_def)
  have "handle (RuntestSetup it inner) s =
       Inr (s\<lparr>spans := spans s @ phase_span (current_span s) it ''setup'' # ys,
              exported := exported s @ xs @ [phase_span (current_span s) it ''setup'']\<rparr>)"
    by (simp add: pre run pytest_runtest_setup_post_def start_as_current_span_exit_def
        span_end_at[where xs = "spans s" and sp = ?S and ys = ys] S)
  with ys xs len show ?thesis by blast
qed

lemma call_run:
  assumes "are_fixture_setups inner"
  shows "\<exists>ys xs. handle (RuntestCall it inner) s =
       Inr (s\<lparr>spans := spans s @ phase_span (current_span s) it ''call'' # ys,
              exported := exported s @ xs @ [phase_span (current_span s) it ''call'']\<rparr>) \<and>
       list_all fixture_setup_span ys \<and> list_all fixture_setup_span xs \<and>
       length ys = length (flatten_all inner) \<and> length xs = length (flatten_all inner)"
proof -
  let ?n = "length (spans s)"
  let ?S = "new_span (item_name it @ '' call'') (map_option WithSpan (current_span s))
              (item_attributes it ''test call'')"
  let ?s1 = "s\<lparr>spans := spans s @ [?S], current_span := Some ?n\<rparr>"
  have pre: "pytest_runtest_call_pre it s = ((?n, current_span s), ?s1)"
    by (simp add: pytest_runtest_call_pre_def start_as_current_span_enter_def start_span_def)
  from fixture_setups_run(2)[of inner ?s1] assms obtain ys xs where
    run: "handle_all inner ?s1 = Inr (?s1\<lparr>spans := spans ?s1 @ ys, exported := exported ?s1 @ xs\<rparr>)"
    and ys: "list_all fixture_setup_span ys" and xs: "list_all fixture_setup_span xs"
    and len: "length ys = length (flatten_all inner)" "length xs = length (flatten_all inner)"
    by blast
  have S: "\<not> span_ended ?S" "?S\<lparr>span_ended := True\<rparr> = phase_span (current_span s) it ''call''"
    by (simp_all add: new_span_def phase_span_def)
  have "handle (RuntestCall it inner) s =
       Inr (s\<lparr>spans := spans s @ phase_span (current_span s) it ''call'' # ys,
              exported := exported s @ xs @ [phase_span (current_span s) it ''call'']\<rparr>)"
    by (simp add: pre run pytest_runtest_call_post_def start_as_current_span_exit_def
        span_end_at[where xs = "spans s" and sp = ?S and ys = ys] S)
  with ys xs len show ?thesis by blast
qed

lemma make_report_simps [simp]:
  "report_when (make_report w r) = w"
  "(outcome (make_report w r) = ''failed'') = is_failed r"
  "longrepr (make_report w (Failed e l)) = l"
  by (simp_all add: make_report_def is_failed_def split: phase_result.splits)

lemma logreport_run:
  assumes "spans s = xs @ T # ys" and "current_span s = Some (length xs)"
    and "\<not> span_ended T" and "w = ''call'' \<longrightarrow> has_error s = Some h"
  shows "pytest_runtest_logreport (make_report w r) s =
         Inr (s\<lparr>spans := xs @ (if w = ''call''
                    then status_set (Status (if is_failed r then ERROR else OK) None) T
                    else T) # ys,
                has_error := (if w = ''call'' then Some (h \<or> is_failed r) else has_error s)\<rparr>)"
proof (cases "w = ''call''")
  case True
  with assms(4) have h: "has_error s = Some h" by simp
  show ?thesis
    using assms(1-3) True
    by (simp add: pytest_runtest_logreport_def h get_current_span_def set_status_def
        on_span_at[where xs = xs and sp = T and ys = ys] Let_def)
next
  case False
  show ?thesis
    using assms(1) False by (simp add: pytest_runtest_logreport_def)
qed

lemma exception_interact_run:
  assumes "spans s = xs @ T # ys" and "current_span s = Some (length xs)"
    and "\<not> span_ended T"
  shows "pytest_exception_interact \<lparr>excinfo = Some e\<rparr> report s =
         Inr (s\<lparr>spans := xs @
                status_set (Status ERROR (Some (exc_type_str e @ '': '' @ exc_str e)))
                  (T\<lparr>span_events := span_events T @
                       [exception_event e [(EXCEPTION_STACKTRACE, AStr (longrepr report))]]\<rparr>)
                # ys\<rparr>)"
proof -
  let ?f = "\<lambda>sp. sp\<lparr>span_events := span_events sp @
                       [exception_event e [(EXCEPTION_STACKTRACE, AStr (longrepr report))]]\<rparr>"
  let ?s1 = "s\<lparr>spans := xs @ ?f T # ys\<rparr>"
  have r: "record_exception (length xs) e [(EXCEPTION_STACKTRACE, AStr (longrepr report))] s = ?s1"
    unfolding record_exception_def using assms(1,3) by (rule on_span_at)
  have "spans ?s1 = xs @ ?f T # ys" "\<not> span_ended (?f T)"
    using assms(3) by simp_all
  then have st: "set_status (length xs) st ?s1 = ?s1\<lparr>spans := xs @ status_set st (?f T) # ys\<rparr>" for st
    unfolding set_status_def by (rule on_span_at)
  show ?thesis
    by (simp add: pytest_exception_interact_def get_current_span_def assms(2) r st)
qed

lemma report_run:
  assumes "spans s = xs @ T # ys" and "current_span s = Some (length xs)"
    and "\<not> span_ended T" and "w = ''call'' \<longrightarrow> has_error s = Some h"
  shows "handle_all
           (RuntestLogreport (make_report w r) #
            (case r of
               Failed e l \<Rightarrow> [ExceptionInteract \<lparr>excinfo = Some e\<rparr> (make_report w r)]
             | _ \<Rightarrow> [])) s =
         Inr (s\<lparr>spans := xs @ after_report w r T # ys,
                has_error := (if w = ''call'' then Some (h \<or> is_failed r) else has_error s)\<rparr>)"
proof -
  define T1 where "T1 = (if w = ''call''
             then status_set (Status (if is_failed r then ERROR else OK) None) T else T)"
  define hv where "hv = (if w = ''call'' then Some (h \<or> is_failed r) else has_error s)"
  let ?s1 = "s\<lparr>spans := xs @ T1 # ys, has_error := hv\<rparr>"
  have log: "pytest_runtest_logreport (make_report w r) s = Inr ?s1"
    unfolding T1_def hv_def using assms by (rule logreport_run)
  have T1: "\<not> span_ended T1"
    using assms(3) by (simp add: T1_def)
  show ?thesis
  proof (cases r)
    case (Failed e l)
    have "spans ?s1 = xs @ T1 # ys" "current_span ?s1 = Some (length xs)"
      using assms(2) by simp_all
    note exc = exception_interact_run[OF this T1, of e "make_report w r"]
    have T: "after_report w r T =
       status_set (Status ERROR (Some (exc_type_str e @ '': '' @ exc_str e)))
                  (T1\<lparr>span_events := span_events T1 @
                       [exception_event e [(EXCEPTION_STACKTRACE, AStr l)]]\<rparr>)"
      using Failed by (simp add: after_report_def Let_def T1_def)
    have "handle_all [RuntestLogreport (make_report w r),
                      ExceptionInteract \<lparr>excinfo = Some e\<rparr> (make_report w r)] s =
          pytest_exception_interact \<lparr>excinfo = Some e\<rparr> (make_report w r) ?s1"
      by (simp add: log split: sum.splits)
    also have "\<dots> = Inr (s\<lparr>spans := xs @ after_report w r T # ys, has_error := hv\<rparr>)"
      unfolding exc T using Failed by simp
    finally show ?thesis
      using Failed by (simp add: hv_def)
  next
    case Passed
    have "after_report w r T = T1"
      using Passed by (simp add: after_report_def Let_def T1_def)
    with log Passed show ?thesis by (simp add: hv_def)
  next
    case Skipped
    have "after_report w r T = T1"
      using Skipped by (simp add: after_report_def Let_def T1_def)
    with log Skipped show ?thesis by (simp add: hv_def)
  qed
qed


lemma call_and_report_run:
  "handle (hook inner) s = Inr s' \<Longrightarrow>
   handle_all (call_and_report hook w inner r) s =
   handle_all
     (RuntestLogreport (make_report w r) #
      (case r of
         Failed e l \<Rightarrow> [ExceptionInteract \<lparr>excinfo = Some e\<rparr> (make_report w r)]
       | _ \<Rightarrow> [])) s'"
  by (simp add: call_and_report_def)

lemma protocol_run_called:
  assumes hr: "session_span s = Some r"
    and hsetup: "are_fixture_setups (setup_inner ir)" "setup_result ir = Passed"
    and hcall: "are_fixture_setups (call_inner ir)"
    and hteardown: "teardown_inner ir = map finalize fds"
    and hh: "has_error s = Some h"
  shows "\<exists>ys xs ys' xs'.
     handle (runtestprotocol ir) s =
       Inr (s\<lparr>spans := spans s @
               (after_report ''teardown'' (teardown_result ir)
                  (after_report ''call'' (call_result ir)
                     (new_span (item_name (run_item ir)) (Some (WithSpan r))
                        (item_attributes (run_item ir) ''test''))))\<lparr>span_ended := True\<rparr> #
               phase_span (Some (length (spans s))) (run_item ir) ''setup'' # ys @
               phase_span (Some (length (spans s))) (run_item ir) ''call'' # ys' @
               phase_span (Some (length (spans s))) (run_item ir) ''teardown'' #
               map (\<lambda>fr. if has_cached_result fr
                          then finalized (Some (length (spans s) + length ys + length ys' + 3)) fr
                          else placeholder (Some (length (spans s) + length ys + length ys' + 3))) fds @
               [placeholder (Some (length (spans s) + length ys + length ys' + 3))],
             exported := exported s @ xs @
               phase_span (Some (length (spans s))) (run_item ir) ''setup'' # xs' @
               phase_span (Some (length (spans s))) (run_item ir) ''call'' #
               map (finalized (Some (length (spans s) + length ys + length ys' + 3)))
                 (filter has_cached_result fds) @
               [phase_span (Some (length (spans s))) (run_item ir) ''teardown'',
                (after_report ''teardown'' (teardown_result ir)
                  (after_report ''call'' (call_result ir)
                     (new_span (item_name (run_item ir)) (Some (WithSpan r))
                        (item_attributes (run_item ir) ''test''))))\<lparr>span_ended := True\<rparr>],
             has_error := Some (h \<or> is_failed (call_result ir)),
             fixture_teardown_span := None\<rparr>) \<and>
     list_all fixture_setup_span ys \<and> list_all fixture_setup_span xs \<and>
     list_all fixture_setup_span ys' \<and> list_all fixture_setup_span xs' \<and>
     length ys = length (flatten_all (setup_inner ir)) \<and>
     length xs = length (flatten_all (setup_inner ir)) \<and>
     length ys' = length (flatten_all (call_inner ir)) \<and>
     length xs' = length (flatten_all (call_inner ir))"
proof -
  define it where "it = run_item ir"
  define n where "n = length (spans s)"
  define T0 where "T0 = new_span (item_name it) (Some (WithSpan r)) (item_attributes it ''test'')"
  define S where "S = phase_span (Some n) it ''setup''"
  define C where "C = phase_span (Some n) it ''call''"
  define D where "D = phase_span (Some n) it ''teardown''"
  define T2 where "T2 = after_report ''call'' (call_result ir) T0"
  define T3 where "T3 = after_report ''teardown'' (teardown_result ir) T2"
  have T0: "\<not> span_ended T0" by (simp add: T0_def new_span_def)
  then have T2: "\<not> span_ended T2" and T3: "\<not> span_ended T3"
    by (simp_all add: T2_def T3_def)
  have T1: "after_report ''setup'' Passed T0 = T0"
    by (simp add: after_report_def)
  \<comment> \<open>the test span is opened\<close>
  define s1 where "s1 = s\<lparr>spans := spans s @ [T0], current_span := Some n\<rparr>"
  have pre: "pytest_runtest_protocol_pre it s = Inr ((n, current_span s), s1)"
    by (simp add: pytest_runtest_protocol_pre_def hr start_as_current_span_enter_def
        start_span_def s1_def n_def T0_def)
  \<comment> \<open>setup\<close>
  from setup_run[OF hsetup(1), of it s1] obtain ys xs where
    run2: "handle (RuntestSetup it (setup_inner ir)) s1 =
       Inr (s1\<lparr>spans := spans s1 @ phase_span (current_span s1) it ''setup'' # ys,
              exported := exported s1 @ xs @ [phase_span (current_span s1) it ''setup'']\<rparr>)"
    and ys: "list_all fixture_setup_span ys" and xs: "list_all fixture_setup_span xs"
    and len: "length ys = length (flatten_all (setup_inner ir))"
      "length xs = length (flatten_all (setup_inner ir))"
    by blast
  define s2 where "s2 = s\<lparr>spans := spans s @ T0 # S # ys, current_span := Some n,
      exported := exported s @ xs @ [S]\<rparr>"
  have run2': "handle (RuntestSetup it (setup_inner ir)) s1 = Inr s2"
    unfolding run2 by (simp add: s1_def s2_def S_def)
  have "spans s2 = spans s @ T0 # (S # ys)" "current_span s2 = Some (length (spans s))"
    by (simp_all add: s2_def n_def)
  note rep2 = report_run[OF this T0, of "''setup''" h Passed]
  have part_setup: "handle_all (call_and_report (RuntestSetup it) ''setup'' (setup_inner ir) Passed) s1
      = Inr s2"
    unfolding call_and_report_run[where hook = "RuntestSetup it" and inner = "setup_inner ir", OF run2'] using rep2 by (simp add: T1 s2_def)
  \<comment> \<open>call\<close>
  from call_run[OF hcall, of it s2] obtain ys' xs' where
    run3: "handle (RuntestCall it (call_inner ir)) s2 =
       Inr (s2\<lparr>spans := spans s2 @ phase_span (current_span s2) it ''call'' # ys',
              exported := exported s2 @ xs' @ [phase_span (current_span s2) it ''call'']\<rparr>)"
    and ys': "list_all fixture_setup_span ys'" and xs': "list_all fixture_setup_span xs'"
    and len': "length ys' = length (flatten_all (call_inner ir))"
      "length xs' = length (flatten_all (call_inner ir))"
    by blast
  define s3 where "s3 = s\<lparr>spans := spans s @ T0 # S # ys @ C # ys', current_span := Some n,
      exported := exported s @ xs @ S # xs' @ [C]\<rparr>"
  have run3': "handle (RuntestCall it (call_inner ir)) s2 = Inr s3"
    unfolding run3 by (simp add: s2_def s3_def C_def)
  have "spans s3 = spans s @ T0 # (S # ys @ C # ys')" "current_span s3 = Some (length (spans s))"
    by (simp_all add: s3_def n_def)
  note rep3 = report_run[OF this T0, of "''call''" h "call_result ir"]
  define s4 where "s4 = s\<lparr>spans := spans s @ T2 # S # ys @ C # ys', current_span := Some n,
      exported := exported s @ xs @ S # xs' @ [C],
      has_error := Some (h \<or> is_failed (call_result ir))\<rparr>"
  have part_call: "handle_all (call_and_report (RuntestCall it) ''call'' (call_inner ir) (call_result ir)) s2
      = Inr s4"
    unfolding call_and_report_run[where hook = "RuntestCall it" and inner = "call_inner ir", OF run3'] using rep3 hh by (simp add: s3_def s4_def T2_def)
  \<comment> \<open>teardown\<close>
  define d where "d = length (spans s) + length ys + length ys' + 3"
  define Z where "Z = map (\<lambda>fr. if has_cached_result fr then finalized (Some d) fr
                       else placeholder (Some d)) fds @ [placeholder (Some d)]"
  define X where "X = map (finalized (Some d)) (filter has_cached_result fds)"
  define s5 where "s5 = s\<lparr>spans := spans s @ T2 # S # ys @ C # ys' @ D # Z,
      current_span := Some n,
      exported := exported s @ xs @ S # xs' @ C # X @ [D],
      has_error := Some (h \<or> is_failed (call_result ir)),
      fixture_teardown_span := None\<rparr>"
  have len4: "length (spans s4) = d"
    by (simp add: s4_def d_def)
  have run5: "handle (RuntestTeardown it (teardown_inner ir)) s4 = Inr s5"
    unfolding hteardown teardown_run len4
    by (simp add: s4_def s5_def D_def Z_def X_def)
  have "spans s5 = spans s @ T2 # (S # ys @ C # ys' @ D # Z)"
    "current_span s5 = Some (length (spans s))"
    by (simp_all add: s5_def n_def)
  note rep5 = report_run[OF this T2, of "''teardown''" h "teardown_result ir"]
  define s6 where "s6 = s\<lparr>spans := spans s @ T3 # S # ys @ C # ys' @ D # Z,
      current_span := Some n,
      exported := exported s @ xs @ S # xs' @ C # X @ [D],
      has_error := Some (h \<or> is_failed (call_result ir)),
      fixture_teardown_span := None\<rparr>"
  have part_teardown: "handle_all (call_and_report (RuntestTeardown it) ''teardown''
        (teardown_inner ir) (teardown_result ir)) s4 = Inr s6"
    unfolding call_and_report_run[where hook = "RuntestTeardown it" and inner = "teardown_inner ir", OF run5] using rep5 by (simp add: s5_def s6_def T3_def)
  \<comment> \<open>the test span is closed\<close>
  have inner: "handle_all
     (call_and_report (RuntestSetup it) ''setup'' (setup_inner ir) Passed @
      call_and_report (RuntestCall it) ''call'' (call_inner ir) (call_result ir) @
      call_and_report (RuntestTeardown it) ''teardown'' (teardown_inner ir) (teardown_result ir)) s1
     = Inr s6"
    by (simp add: handle_all_append part_setup part_call part_teardown)
  have "spans (s6\<lparr>current_span := current_span s\<rparr>) = spans s @ T3 # (S # ys @ C # ys' @ D # Z)"
    by (simp add: s6_def)
  note fin = span_end_at[OF this T3]
  have post: "pytest_runtest_protocol_post (n, current_span s) s6 =
      s\<lparr>spans := spans s @ T3\<lparr>span_ended := True\<rparr> # S # ys @ C # ys' @ D # Z,
        exported := exported s @ xs @ S # xs' @ C # X @ [D, T3\<lparr>span_ended := True\<rparr>],
        has_error := Some (h \<or> is_failed (call_result ir)),
        fixture_teardown_span := None\<rparr>"
    unfolding pytest_runtest_protocol_post_def start_as_current_span_exit_def fst_conv snd_conv
      n_def fin
    by (simp add: s6_def)
  have "handle (runtestprotocol ir) s =
      Inr (s\<lparr>spans := spans s @ T3\<lparr>span_ended := True\<rparr> # S # ys @ C # ys' @ D # Z,
        exported := exported s @ xs @ S # xs' @ C # X @ [D, T3\<lparr>span_ended := True\<rparr>],
        has_error := Some (h \<or> is_failed (call_result ir)),
        fixture_teardown_span := None\<rparr>)"
    using pre inner post by (simp add: runtestprotocol_def hsetup(2) it_def[symmetric])
  then show ?thesis
    using ys xs ys' xs' len len'
    unfolding T3_def T2_def T0_def S_def C_def D_def Z_def X_def d_def n_def it_def
    by (intro exI[of _ ys] exI[of _ xs] exI[of _ ys'] exI[of _ xs']) simp
qed

lemma protocol_run_uncalled:
  assumes hr: "session_span s = Some r"
    and hsetup: "are_fixture_setups (setup_inner ir)" "setup_result ir \<noteq> Passed"
    and hteardown: "teardown_inner ir = map finalize fds"
  shows "\<exists>ys xs.
     handle (runtestprotocol ir) s =
       Inr (s\<lparr>spans := spans s @
               (after_report ''teardown'' (teardown_result ir)
                  (after_report ''setup'' (setup_result ir)
                     (new_span (item_name (run_item ir)) (Some (WithSpan r))
                        (item_attributes (run_item ir) ''test''))))\<lparr>span_ended := True\<rparr> #
               phase_span (Some (length (spans s))) (run_item ir) ''setup'' # ys @
               phase_span (Some (length (spans s))) (run_item ir) ''teardown'' #
               map (\<lambda>fr. if has_cached_result fr
                          then finalized (Some (length (spans s) + length ys + 2)) fr
                          else placeholder (Some (length (spans s) + length ys + 2))) fds @
               [placeholder (Some (length (spans s) + length ys + 2))],
             exported := exported s @ xs @
               phase_span (Some (length (spans s))) (run_item ir) ''setup'' #
               map (finalized (Some (length (spans s) + length ys + 2)))
                 (filter has_cached_result fds) @
               [phase_span (Some (length (spans s))) (run_item ir) ''teardown'',
                (after_report ''teardown'' (teardown_result ir)
                  (after_report ''setup'' (setup_result ir)
                     (new_span (item_name (run_item ir)) (Some (WithSpan r))
                        (item_attributes (run_item ir) ''test''))))\<lparr>span_ended := True\<rparr>],
             fixture_teardown_span := None\<rparr>) \<and>
     list_all fixture_setup_span ys \<and> list_all fixture_setup_span xs \<and>
     length ys = length (flatten_all (setup_inner ir)) \<and>
     length xs = length (flatten_all (setup_inner ir))"
proof -
  define it where "it = run_item ir"
  define n where "n = length (spans s)"
  define T0 where "T0 = new_span (item_name it) (Some (WithSpan r)) (item_attributes it ''test'')"
  define S where "S = phase_span (Some n) it ''setup''"
  define D where "D = phase_span (Some n) it ''teardown''"
  define T1 where "T1 = after_report ''setup'' (setup_result ir) T0"
  define T3 where "T3 = after_report ''teardown'' (teardown_result ir) T1"
  have T0: "\<not> span_ended T0" by (simp add: T0_def new_span_def)
  then have T1: "\<not> span_ended T1" and T3: "\<not> span_ended T3"
    by (simp_all add: T1_def T3_def)
  \<comment> \<open>the test span is opened\<close>
  define s1 where "s1 = s\<lparr>spans := spans s @ [T0], current_span := Some n\<rparr>"
  have pre: "pytest_runtest_protocol_pre it s = Inr ((n, current_span s), s1)"
    by (simp add: pytest_runtest_protocol_pre_def hr start_as_current_span_enter_def
        start_span_def s1_def n_def T0_def)
  \<comment> \<open>setup\<close>
  from setup_run[OF hsetup(1), of it s1] obtain ys xs where
    run2: "handle (RuntestSetup it (setup_inner ir)) s1 =
       Inr (s1\<lparr>spans := spans s1 @ phase_span (current_span s1) it ''setup'' # ys,
              exported := exported s1 @ xs @ [phase_span (current_span s1) it ''setup'']\<rparr>)"
    and ys: "list_all fixture_setup_span ys" and xs: "list_all fixture_setup_span xs"
    and len: "length ys = length (flatten_all (setup_inner ir))"
      "length xs = length (flatten_all (setup_inner ir))"
    by blast
  define s2 where "s2 = s\<lparr>spans := spans s @ T0 # S # ys, current_span := Some n,
      exported := exported s @ xs @ [S]\<rparr>"
  have run2': "handle (RuntestSetup it (setup_inner ir)) s1 = Inr s2"
    unfolding run2 by (simp add: s1_def s2_def S_def)
  have "spans s2 = spans s @ T0 # (S # ys)" "current_span s2 = Some (length (spans s))"
    by (simp_all add: s2_def n_def)
  note rep2 = report_run[OF this T0, of "''setup''" False "setup_result ir"]
  define s4 where "s4 = s\<lparr>spans := spans s @ T1 # S # ys, current_span := Some n,
      exported := exported s @ xs @ [S]\<rparr>"
  have part_setup: "handle_all (call_and_report (RuntestSetup it) ''setup'' (setup_inner ir)
        (setup_result ir)) s1 = Inr s4"
    unfolding call_and_report_run[where hook = "RuntestSetup it" and inner = "setup_inner ir", OF run2']
    using rep2 by (simp add: s2_def s4_def T1_def)
  \<comment> \<open>teardown\<close>
  define d where "d = length (spans s) + length ys + 2"
  define Z where "Z = map (\<lambda>fr. if has_cached_result fr then finalized (Some d) fr
                       else placeholder (Some d)) fds @ [placeholder (Some d)]"
  define X where "X = map (finalized (Some d)) (filter has_cached_result fds)"
  define s5 where "s5 = s\<lparr>spans := spans s @ T1 # S # ys @ D # Z,
      current_span := Some n,
      exported := exported s @ xs @ S # X @ [D],
      fixture_teardown_span := None\<rparr>"
  have len4: "length (spans s4) = d"
    by (simp add: s4_def d_def)
  have run5: "handle (RuntestTeardown it (teardown_inner ir)) s4 = Inr s5"
    unfolding hteardown teardown_run len4
    by (simp add: s4_def s5_def D_def Z_def X_def)
  have "spans s5 = spans s @ T1 # (S # ys @ D # Z)"
    "current_span s5 = Some (length (spans s))"
    by (simp_all add: s5_def n_def)
  note rep5 = report_run[OF this T1, of "''teardown''" False "teardown_result ir"]
  define s6 where "s6 = s\<lparr>spans := spans s @ T3 # S # ys @ D # Z,
      current_span := Some n,
      exported := exported s @ xs @ S # X @ [D],
      fixture_teardown_span := None\<rparr>"
  have part_teardown: "handle_all (call_and_report (RuntestTeardown it) ''teardown''
        (teardown_inner ir) (teardown_result ir)) s4 = Inr s6"
    unfolding call_and_report_run[where hook = "RuntestTeardown it" and inner = "teardown_inner ir", OF run5]
    using rep5 by (simp add: s5_def s6_def T3_def)
  \<comment> \<open>the test span is closed\<close>
  have inner: "handle_all
     (call_and_report (RuntestSetup it) ''setup'' (setup_inner ir) (setup_result ir) @
      call_and_report (RuntestTeardown it) ''teardown'' (teardown_inner ir) (teardown_result ir)) s1
     = Inr s6"
    by (simp add: handle_all_append part_setup part_teardown)
  have "spans (s6\<lparr>current_span := current_span s\<rparr>) = spans s @ T3 # (S # ys @ D # Z)"
    by (simp add: s6_def)
  note fin = span_end_at[OF this T3]
  have post: "pytest_runtest_protocol_post (n, current_span s) s6 =
      s\<lparr>spans := spans s @ T3\<lparr>span_ended := True\<rparr> # S # ys @ D # Z,
        exported := exported s @ xs @ S # X @ [D, T3\<lparr>span_ended := True\<rparr>],
        fixture_teardown_span := None\<rparr>"
    unfolding pytest_runtest_protocol_post_def start_as_current_span_exit_def fst_conv snd_conv
      n_def fin
    by (simp add: s6_def)
  have "handle (runtestprotocol ir) s =
      Inr (s\<lparr>spans := spans s @ T3\<lparr>span_ended := True\<rparr> # S # ys @ D # Z,
        exported := exported s @ xs @ S # X @ [D, T3\<lparr>span_ended := True\<rparr>],
        fixture_teardown_span := None\<rparr>)"
    using pre inner post by (simp add: runtestprotocol_def hsetup(2) it_def[symmetric])
  then show ?thesis
    using ys xs len
    unfolding T3_def T1_def T0_def S_def D_def Z_def X_def d_def n_def it_def
    by (intro exI[of _ ys] exI[of _ xs]) simp
qed

lemma new_span_simps [simp]:
  "span_name (new_span nm par attrs) = nm"
  "span_parent (new_span nm par attrs) = par"
  "span_attributes (new_span nm par attrs) = attrs"
  "span_status (new_span nm par attrs) = Status UNSET None"
  "span_events (new_span nm par attrs) = []"
  "\<not> span_ended (new_span nm par attrs)"
  by (simp_all add: new_span_def)

lemma lineno_item_attributes:
  "map_of (item_attributes it ty) CODE_LINENO = lineno_of (fst (snd (location it)))"
proof -
  obtain fp ln dm where loc: "location it = (fp, ln, dm)"
    by (cases "location it")
  show ?thesis
    by (cases ln)
       (simp_all add: item_attributes_def loc lineno_of_def PYTEST_SPAN_TYPE_def
         CODE_FILEPATH_def CODE_FUNCTION_def CODE_LINENO_def)
qed

lemma span_type_item_attributes:
  "map_of (item_attributes it ty) PYTEST_SPAN_TYPE = Some (AStr ty)"
proof -
  obtain fp ln dm where loc: "location it = (fp, ln, dm)"
    by (cases "location it")
  show ?thesis
    by (cases ln)
       (simp_all add: item_attributes_def loc PYTEST_SPAN_TYPE_def
         CODE_FILEPATH_def CODE_FUNCTION_def CODE_LINENO_def)
qed

lemma phase_span_simps [simp]:
  "span_name (phase_span c it ph) = item_name it @ '' '' @ ph"
  "span_type (phase_span c it ph) = Some (AStr (''test '' @ ph))"
  "lineno (phase_span c it ph) = lineno_of (fst (snd (location it)))"
  "span_status (phase_span c it ph) = Status UNSET None"
  "span_events (phase_span c it ph) = []"
  "span_ended (phase_span c it ph)"
  by (simp_all add: phase_span_def new_span_def span_type_def lineno_def
      lineno_item_attributes span_type_item_attributes)

lemma finalized_simps [simp]:
  "span_name (finalized c fr) = argname (fst fr) @ '' teardown''"
  "span_type (finalized c fr) = Some (AStr ''fixture teardown'')"
  "lineno (finalized c fr) =
     (if has_location (fst fr) then lineno_of (Some (snd (fslineno (fst fr)))) else None)"
  "span_status (finalized c fr) = Status UNSET None"
  "span_ended (finalized c fr)"
  by (auto simp: finalized_def new_span_def span_type_def lineno_def fixture_attributes_def
      setitems_def setitem_def lineno_of_def PYTEST_SPAN_TYPE_def CODE_FILEPATH_def
      CODE_LINENO_def split: prod.splits)

lemma placeholder_simps [simp]:
  "span_name (placeholder c) = ''fixture teardown''"
  "span_type (placeholder c) = None"
  "span_attributes (placeholder c) = []"
  "\<not> span_ended (placeholder c)"
  by (simp_all add: placeholder_def new_span_def span_type_def)

lemma status_set_simps [simp]:
  "span_name (status_set st sp) = span_name sp"
  "span_attributes (status_set st sp) = span_attributes sp"
  "span_events (status_set st sp) = span_events sp"
  by (simp_all add: status_set_def)

lemma after_report_simps [simp]:
  "span_name (after_report w r sp) = span_name sp"
  "span_attributes (after_report w r sp) = span_attributes sp"
  by (simp_all add: after_report_def Let_def split: phase_result.splits)

lemma test_span_simps [simp]:
  "span_type (sp\<lparr>span_ended := b\<rparr>) = span_type sp"
  "lineno (sp\<lparr>span_ended := b\<rparr>) = lineno sp"
  "span_type (after_report w r sp) = span_type sp"
  "lineno (after_report w r sp) = lineno sp"
  "span_type (new_span nm par (item_attributes it ty)) = Some (AStr ty)"
  "lineno (new_span nm par (item_attributes it ty)) = lineno_of (fst (snd (location it)))"
  by (simp_all add: span_type_def lineno_def new_span_def lineno_item_attributes
      span_type_item_attributes)

lemma filter_phase_fixture_setups:
  "list_all fixture_setup_span xs \<Longrightarrow> filter is_phase_span xs = []"
  by (induction xs) (auto simp: fixture_setup_span_def is_phase_span_def)

lemma filter_phase_finalized [simp]:
  "filter is_phase_span (map (finalized c) fs) = []"
  by (induction fs) (auto simp: is_phase_span_def)

lemma filter_item_fixture_setups:
  "list_all fixture_setup_span xs \<Longrightarrow> filter is_item_span xs = []"
  by (induction xs) (auto simp: fixture_setup_span_def is_phase_span_def is_item_span_def)

lemma filter_item_finalized [simp]:
  "filter is_item_span (map (finalized c) fs) = []"
  by (induction fs) (auto simp: is_phase_span_def is_item_span_def)

lemma not_call_fixture_setups:
  "list_all fixture_setup_span xs \<Longrightarrow>
   list_all (\<lambda>sp. span_type sp \<noteq> Some (AStr ''test call'')) xs"
  by (induction xs) (auto simp: fixture_setup_span_def)

lemma not_call_teardown_pipeline:
  "list_all (\<lambda>sp. span_type sp \<noteq> Some (AStr ''test call''))
     (map (\<lambda>fr. if has_cached_result fr then finalized c fr else placeholder c) fds)"
  by (induction fds) simp_all

lemma after_report_error:
  "status_code (span_status sp) = ERROR \<Longrightarrow> w \<noteq> ''call'' \<Longrightarrow>
   status_code (span_status (after_report w r sp)) = ERROR"
  by (simp add: after_report_def status_set_def split: phase_result.splits)

lemma after_report_failed:
  "status_code (span_status sp) \<noteq> OK \<Longrightarrow>
   span_status (after_report w (Failed e l) sp) =
     Status ERROR (Some (exc_type_str e @ '': '' @ exc_str e)) \<and>
   span_events (after_report w (Failed e l) sp) =
     span_events sp @ [exception_event e [(EXCEPTION_STACKTRACE, AStr l)]]"
  by (simp add: after_report_def status_set_def is_failed_def)







lemma item_run_lineno:
  assumes "session_span s = Some r" and "has_error s = Some h"
    and "are_fixture_setups (setup_inner ir)" and "are_fixture_setups (call_inner ir)"
    and "teardown_inner ir = map finalize fds"
  shows "\<exists>s'. handle (runtestprotocol ir) s = Inr s' \<and>
     length (filter is_item_span (drop (length (exported s)) (exported s'))) =
       (if setup_result ir = Passed then 4 else 3) \<and>
     list_all (\<lambda>sp. lineno sp = lineno_of (fst (snd (location (run_item ir)))))
       (filter is_item_span (drop (length (exported s)) (exported s')))"
proof (cases "setup_result ir = Passed")
  case True
  define T where "T = after_report ''teardown'' (teardown_result ir)
                  (after_report ''call'' (call_result ir)
                    (new_span (item_name (run_item ir)) (Some (WithSpan r))
                        (item_attributes (run_item ir) ''test'')))"
  from protocol_run_called[OF assms(1,3) True assms(4,5,2)]
  obtain ys xs ys' xs' where
    run: "handle (runtestprotocol ir) s =
       Inr (s\<lparr>spans := spans s @ T\<lparr>span_ended := True\<rparr> #
               phase_span (Some (length (spans s))) (run_item ir) ''setup'' # ys @
               phase_span (Some (length (spans s))) (run_item ir) ''call'' # ys' @
               phase_span (Some (length (spans s))) (run_item ir) ''teardown'' #
               map (\<lambda>fr. if has_cached_result fr
                          then finalized (Some (length (spans s) + length ys + length ys' + 3)) fr
                          else placeholder (Some (length (spans s) + length ys + length ys' + 3))) fds @
               [placeholder (Some (length (spans s) + length ys + length ys' + 3))],
             exported := exported s @ xs @
               phase_span (Some (length (spans s))) (run_item ir) ''setup'' # xs' @
               phase_span (Some (length (spans s))) (run_item ir) ''call'' #
               map (finalized (Some (length (spans s) + length ys + length ys' + 3)))
                 (filter has_cached_result fds) @
               [phase_span (Some (length (spans s))) (run_item ir) ''teardown'',
                T\<lparr>span_ended := True\<rparr>],
             has_error := Some (h \<or> is_failed (call_result ir)),
             fixture_teardown_span := None\<rparr>)"
    and xs: "list_all fixture_setup_span xs" and xs': "list_all fixture_setup_span xs'"
    unfolding T_def by blast
  have T: "span_type T = Some (AStr ''test'')"
    "lineno T = lineno_of (fst (snd (location (run_item ir))))"
    by (simp_all add: T_def)
  have item: "is_item_span (T\<lparr>span_ended := True\<rparr>)"
    "is_item_span (phase_span c (run_item ir) ''setup'')"
    "is_item_span (phase_span c (run_item ir) ''call'')"
    "is_item_span (phase_span c (run_item ir) ''teardown'')" for c
    by (simp_all add: is_item_span_def is_phase_span_def T)
  show ?thesis
    unfolding run
    using filter_item_fixture_setups[OF xs] filter_item_fixture_setups[OF xs'] True
    by (simp add: T item)
next
  case False
  define T where "T = after_report ''teardown'' (teardown_result ir)
                  (after_report ''setup'' (setup_result ir)
                    (new_span (item_name (run_item ir)) (Some (WithSpan r))
                        (item_attributes (run_item ir) ''test'')))"
  from protocol_run_uncalled[OF assms(1,3) False assms(5)]
  obtain ys xs where
    run: "handle (runtestprotocol ir) s =
       Inr (s\<lparr>spans := spans s @ T\<lparr>span_ended := True\<rparr> #
               phase_span (Some (length (spans s))) (run_item ir) ''setup'' # ys @
               phase_span (Some (length (spans s))) (run_item ir) ''teardown'' #
               map (\<lambda>fr. if has_cached_result fr
                          then finalized (Some (length (spans s) + length ys + 2)) fr
                          else placeholder (Some (length (spans s) + length ys + 2))) fds @
               [placeholder (Some (length (spans s) + length ys + 2))],
             exported := exported s @ xs @
               phase_span (Some (length (spans s))) (run_item ir) ''setup'' #
               map (finalized (Some (length (spans s) + length ys + 2)))
                 (filter has_cached_result fds) @
               [phase_span (Some (length (spans s))) (run_item ir) ''teardown'',
                T\<lparr>span_ended := True\<rparr>],
             fixture_teardown_span := None\<rparr>)"
    and xs: "list_all fixture_setup_span xs"
    unfolding T_def by blast
  have T: "span_type T = Some (AStr ''test'')"
    "lineno T = lineno_of (fst (snd (location (run_item ir))))"
    by (simp_all add: T_def)
  have item: "is_item_span (T\<lparr>span_ended := True\<rparr>)"
    "is_item_span (phase_span c (run_item ir) ''setup'')"
    "is_item_span (phase_span c (run_item ir) ''teardown'')" for c
    by (simp_all add: is_item_span_def is_phase_span_def T)
  show ?thesis
    unfolding run
    using filter_item_fixture_setups[OF xs] False
    by (simp add: T item)
qed

lemma fixture_lineno:
  "map_of (fixture_attributes fd req ty) CODE_LINENO =
     (if has_location fd then lineno_of (Some (snd (fslineno fd))) else None)"
proof -
  obtain fp l where loc: "fslineno fd = (fp, l)"
    by (cases "fslineno fd")
  have "fixture_attributes fd req ty =
     [(PYTEST_SPAN_TYPE, AStr ty)] @
     (if has_location fd
      then [(CODE_FILEPATH,
             AStr (if is_relative_to (fs_parts fp) (rootpath req)
                   then path_str (relative_to (fs_parts fp) (rootpath req))
                   else fs_str fp))] @
           (if l \<noteq> 0 then [(CODE_LINENO, AInt l)] else [])
      else [])"
    by (simp only: fixture_attributes_def loc prod.case)
  then show ?thesis
    by (simp add: loc lineno_of_def PYTEST_SPAN_TYPE_def CODE_FILEPATH_def CODE_LINENO_def)
qed

lemma fixture_span_type:
  "map_of (fixture_attributes fd req ty) PYTEST_SPAN_TYPE = Some (AStr ty)"
  by (simp add: fixture_attributes_def)

lemma fixture_setup_lineno:
  "\<exists>s' sp. handle (FixtureSetup fd req []) s = Inr s' \<and>
     exported s' = exported s @ [sp] \<and>
     span_name sp = argname fd @ '' setup'' \<and>
     span_type sp = Some (AStr ''fixture setup'') \<and>
     lineno sp = (if has_location fd then lineno_of (Some (snd (fslineno fd))) else None)"
  by (simp add: pytest_fixture_setup_pre_def pytest_fixture_setup_post_def
      start_as_current_span_enter_def start_as_current_span_exit_def start_span_def
      span_end_def recording_def Let_def span_type_def lineno_def fixture_lineno
      fixture_span_type)

lemma fixture_teardown_lineno:
  assumes "cached_result fd \<noteq> None"
  shows "\<exists>s' sp ph. handle (RuntestTeardown it [finalize (fd, req)]) s = Inr s' \<and>
     exported s' = exported s @ [sp, ph] \<and>
     span_name sp = argname fd @ '' teardown'' \<and>
     span_type sp = Some (AStr ''fixture teardown'') \<and>
     lineno sp = (if has_location fd then lineno_of (Some (snd (fslineno fd))) else None)"
proof -
  have c: "has_cached_result (fd, req)"
    using assms by (simp add: has_cached_result_def)
  show ?thesis
    using teardown_run[of it "[(fd, req)]" s] c by simp
qed


lemma has_error_tracer [simp]:
  "has_error (snd (start_span nm ctx attrs s)) = has_error s"
  "has_error (span_end i s) = has_error s"
  "has_error (on_span i f s) = has_error s"
  "has_error (snd (start_as_current_span_enter nm ctx attrs s)) = has_error s"
  "has_error (start_as_current_span_exit fr s) = has_error s"
  by (simp_all add: start_span_def span_end_def on_span_def start_as_current_span_enter_def
      start_as_current_span_exit_def Let_def split: prod.splits)

lemma has_error_configure: "has_error (pytest_configure cfg s) = has_error s"
  by (simp add: pytest_configure_def session_name_def Let_def
      split: plugin_class.splits option.splits)

lemma has_error_pre:
  "pytest_runtest_protocol_pre it s = Inr (fr, s1) \<Longrightarrow> has_error s1 = has_error s"
  "pytest_runtest_setup_pre it s = (fr, s1) \<Longrightarrow> has_error s1 = has_error s"
  "pytest_runtest_call_pre it s = (fr, s1) \<Longrightarrow> has_error s1 = has_error s"
  "pytest_runtest_teardown_pre it s = (fr, s1) \<Longrightarrow> has_error s1 = has_error s"
  "pytest_fixture_setup_pre fd req s = (fr, s1) \<Longrightarrow> has_error s1 = has_error s"
  "pytest_fixture_post_finalizer_pre fd req s = (ff, s1) \<Longrightarrow> has_error s1 = has_error s"
  by (auto simp: pytest_runtest_protocol_pre_def pytest_runtest_setup_pre_def
      pytest_runtest_call_pre_def pytest_runtest_teardown_pre_def pytest_fixture_setup_pre_def
      pytest_fixture_post_finalizer_pre_def start_as_current_span_enter_def start_span_def
      update_name_def set_attributes_def
      split: option.splits prod.splits if_splits)

lemma has_error_post:
  "has_error (pytest_runtest_protocol_post fr s) = has_error s"
  "has_error (pytest_runtest_setup_post fr s) = has_error s"
  "has_error (pytest_runtest_call_post fr s) = has_error s"
  "has_error (pytest_fixture_setup_post fr s) = has_error s"
  "pytest_runtest_teardown_post fr s = Inr s' \<Longrightarrow> has_error s' = has_error s"
  "pytest_fixture_post_finalizer_post ff s = Inr s' \<Longrightarrow> has_error s' = has_error s"
  by (auto simp: pytest_runtest_protocol_post_def pytest_runtest_setup_post_def
      pytest_runtest_call_post_def pytest_fixture_setup_post_def
      pytest_runtest_teardown_post_def pytest_fixture_post_finalizer_post_def
      start_span_def Let_def
      split: option.splits finalizer_frame.splits)

lemma has_error_exception_interact:
  "pytest_exception_interact call report s = Inr s' \<Longrightarrow> has_error s' = has_error s"
  by (auto simp: pytest_exception_interact_def set_status_def record_exception_def
      split: option.splits)

lemma has_error_sessionstart:
  "pytest_sessionstart s = Inr s' \<Longrightarrow> has_error s' = Some False"
  by (auto simp: pytest_sessionstart_def start_span_def split: prod.splits option.splits)

lemma has_error_sessionfinish:
  "pytest_sessionfinish s = Inr s' \<Longrightarrow> has_error s' = has_error s"
  by (auto simp: pytest_sessionfinish_def try_force_flush_def set_status_def
      split: option.splits)

lemma has_error_logreport:
  "pytest_runtest_logreport report s = Inr s' \<Longrightarrow>
   has_error s' = has_error s \<or>
   (has_error s' = Some True \<and> report_when report = ''call'' \<and> outcome report = ''failed'')"
  by (auto simp: pytest_runtest_logreport_def get_current_span_def set_status_def Let_def
      split: option.splits if_splits)

lemma flag_step_refl: "flag_step ns s s"
  by (simp add: flag_step_def)

lemma flag_step_eq: "has_error s' = has_error s \<Longrightarrow> flag_step ns s s'"
  by (simp add: flag_step_def)

lemma flag_step_trans:
  "flag_step ms s s1 \<Longrightarrow> flag_step ns s1 s2 \<Longrightarrow> flag_step (ms @ ns) s s2"
  by (auto simp: flag_step_def)

lemma flag_step_wrap:
  "has_error s1 = has_error s \<Longrightarrow> flag_step ns s1 s2 \<Longrightarrow> has_error s' = has_error s2 \<Longrightarrow>
   flag_step (n # ns) s s'"
  by (auto simp: flag_step_def)

lemma has_error_run:
  "handle n s = Inr s' \<longrightarrow> flag_step (flatten n) s s'"
  "handle_all ns s = Inr s' \<longrightarrow> flag_step (flatten_all ns) s s'"
proof (induction n s and ns s arbitrary: s' and s' rule: handle_handle_all.induct)
  case (1 cfg s)
  show ?case by (auto simp: has_error_configure intro: flag_step_eq)
next
  case (2 s)
  show ?case by (auto simp: flag_step_def dest: has_error_sessionstart)
next
  case (3 s)
  show ?case by (auto intro: flag_step_eq dest: has_error_sessionfinish)
next
  case (4 it inner s)
  show ?case
    by (auto split: sum.splits prod.splits
        intro!: flag_step_wrap[OF has_error_pre(1) 4[rule_format]]
        simp: has_error_post)
next
  case (5 it inner s)
  show ?case
    by (auto split: sum.splits prod.splits
        intro!: flag_step_wrap[OF has_error_pre(2) 5[rule_format]]
        simp: has_error_post)
next
  case (6 it inner s)
  show ?case
    by (auto split: sum.splits prod.splits
        intro!: flag_step_wrap[OF has_error_pre(3) 6[rule_format]]
        simp: has_error_post)
next
  case (7 it inner s)
  show ?case
    by (auto split: sum.splits prod.splits
        intro!: flag_step_wrap[OF has_error_pre(4) 7[rule_format]]
        simp: has_error_post)
next
  case (8 fd req inner s)
  show ?case
    by (auto split: sum.splits prod.splits
        intro!: flag_step_wrap[OF has_error_pre(5) 8[rule_format]]
        simp: has_error_post)
next
  case (9 fd req inner s)
  show ?case
    by (auto split: sum.splits prod.splits
        intro!: flag_step_wrap[OF has_error_pre(6) 9[rule_format]]
        simp: has_error_post)
next
  case (10 call report s)
  show ?case by (auto intro: flag_step_eq dest: has_error_exception_interact)
next
  case (11 report s)
  show ?case
    by (auto simp: flag_step_def is_failed_call_report_def dest: has_error_logreport)
next
  case (12 s)
  show ?case by (simp add: flag_step_refl)
next
  case (13 n ns s)
  show ?case
    by (auto split: sum.splits intro: flag_step_trans 13[rule_format])
qed

section \<open>The claims\<close>

text \<open>The sample state is the one the first two hooks of a session produce.\<close>

lemma running_reached:
  "handle_all [Configure \<lparr>trace_parent_option = None, workerinput = None\<rparr>, SessionStart]
     new_plugin = Inr running"
  by (simp add: new_plugin_def running_def pytest_configure_def get_trace_parent_def
      pytest_sessionstart_def session_name_def start_span_def Let_def)

lemma running_fields:
  "exported running = []" "length (spans running) = 1" "current_span running = None"
  "session_span running = Some 0" "has_error running = Some False"
  "fixture_teardown_span running = None"
  by (simp_all add: running_def)

text \<open>
  C1. A test uses fixture A, which depends on nothing, and fixture B, which depends on A.
  In the teardown phase the runner sends finalizer notifications of which those with a
  cached result are B's and then A's (B's may be replayed without a cached result, before
  or after). Handling the teardown phase with these notifications reports exactly three
  more spans: \<open>B teardown\<close>, \<open>A teardown\<close> and the phase span, in that order, the first two
  tagged as fixture teardowns. No placeholder is among the reported spans, exactly three
  of the spans created have ended, and no placeholder attribute is left on the plugin.
\<close>

theorem teardown_reports_b_then_a:
  assumes "map (\<lambda>fr. argname (fst fr)) (filter has_cached_result fds) = [b, a]"
  shows "\<exists>s'. handle (RuntestTeardown it (map finalize fds)) s = Inr s' \<and>
     take (length (exported s)) (exported s') = exported s \<and>
     map span_name (drop (length (exported s)) (exported s')) =
       [b @ '' teardown'', a @ '' teardown'', item_name it @ '' teardown''] \<and>
     map span_type (drop (length (exported s)) (exported s')) =
       [Some (AStr ''fixture teardown''), Some (AStr ''fixture teardown''),
        Some (AStr ''test teardown'')] \<and>
     placeholder (Some (length (spans s))) \<notin> set (drop (length (exported s)) (exported s')) \<and>
     length (filter span_ended (drop (length (spans s)) (spans s'))) = 3 \<and>
     fixture_teardown_span s' = None"
proof -
  from assms obtain frb fra where
    f: "filter has_cached_result fds = [frb, fra]"
    and b: "argname (fst frb) = b" and a: "argname (fst fra) = a"
    by (auto simp: map_eq_Cons_conv)
  have ended: "filter (span_ended \<circ>
      (\<lambda>fr. if has_cached_result fr then finalized c fr else placeholder c)) fds =
      filter has_cached_result fds" for c
    by (induction fds) simp_all
  have notin: "placeholder c \<notin> set (map (finalized c) gs)" for c gs
  proof
    assume "placeholder c \<in> set (map (finalized c) gs)"
    then obtain g where "placeholder c = finalized c g" by auto
    then have "span_ended (placeholder c) = span_ended (finalized c g)" by simp
    then show False by simp
  qed
  have notph: "placeholder c \<noteq> phase_span c' it ph" for c c' ph
  proof
    assume "placeholder c = phase_span c' it ph"
    then have "span_ended (placeholder c) = span_ended (phase_span c' it ph)" by simp
    then show False by simp
  qed
  show ?thesis
    using notin[of "Some (length (spans s))" "[frb, fra]"] notph
    by (subst teardown_run) (simp add: f a b ended)
qed

theorem teardown_reports_b_then_a_witness:
  "map (\<lambda>fr. argname (fst fr))
     (filter has_cached_result
        [(fixture_b, the_request), (fixture_b\<lparr>cached_result := None\<rparr>, the_request),
         (fixture_a, the_request)]) = [''fixture_b'', ''fixture_a''] \<and>
   (\<exists>s'. handle (RuntestTeardown test_one
       (map finalize
          [(fixture_b, the_request), (fixture_b\<lparr>cached_result := None\<rparr>, the_request),
           (fixture_a, the_request)])) running = Inr s' \<and>
      map span_name (exported s') =
        [''fixture_b teardown'', ''fixture_a teardown'', ''test_one teardown''] \<and>
      fixture_teardown_span s' = None)"
proof -
  let ?fds = "[(fixture_b, the_request), (fixture_b\<lparr>cached_result := None\<rparr>, the_request),
         (fixture_a, the_request)]"
  have h: "map (\<lambda>fr. argname (fst fr)) (filter has_cached_result ?fds) =
      [''fixture_b'', ''fixture_a'']"
    by (simp add: has_cached_result_def fixture_a_def fixture_b_def)
  from teardown_reports_b_then_a[OF h, of test_one running] obtain s' where
    run: "handle (RuntestTeardown test_one (map finalize ?fds)) running = Inr s'"
    and names: "map span_name (drop (length (exported running)) (exported s')) =
       [''fixture_b'' @ '' teardown'', ''fixture_a'' @ '' teardown'',
        item_name test_one @ '' teardown'']"
    and gone: "fixture_teardown_span s' = None"
    by (elim exE conjE)
  from names have "map span_name (exported s') =
        [''fixture_b teardown'', ''fixture_a teardown'', ''test_one teardown'']"
    by (simp add: running_fields test_one_def)
  with h run gone show ?thesis
    by (intro conjI exI[of _ s'])
qed




text \<open>
  C3. A finalizer notification for a fixture that has no cached result, in any state of
  the plugin: the handler returns normally, hands no span to the exporter, leaves every
  span of the store as it was (so the current placeholder, if there is one, is neither
  renamed nor ended), and leaves a new placeholder, recording and under the temporary
  name, as the one the next notification will find.
\<close>

theorem finalizer_without_cached_result:
  assumes "cached_result fd = None"
  shows "\<exists>s'. handle (FixturePostFinalizer fd req []) s = Inr s' \<and>
           exported s' = exported s \<and>
           spans s' = spans s @ [placeholder (current_span s)] \<and>
           fixture_teardown_span s' = Some (length (spans s)) \<and>
           recording (length (spans s)) s' \<and>
           current_span s' = current_span s"
  using assms
  by (cases "fixture_teardown_span s")
     (simp_all add: pytest_fixture_post_finalizer_pre_def pytest_fixture_post_finalizer_post_def
        start_span_def recording_def placeholder_def)

theorem finalizer_without_cached_result_witness:
  "cached_result (fixture_b\<lparr>cached_result := None\<rparr>) = None \<and>
   (\<exists>s'. handle (FixturePostFinalizer (fixture_b\<lparr>cached_result := None\<rparr>) the_request [])
            (running\<lparr>spans := spans running @ [placeholder None],
                     fixture_teardown_span := Some 1\<rparr>) = Inr s' \<and>
      exported s' = [] \<and>
      spans s' = spans running @ [placeholder None, placeholder None] \<and>
      fixture_teardown_span s' = Some 2)"
proof -
  let ?s = "running\<lparr>spans := spans running @ [placeholder None],
                     fixture_teardown_span := Some 1\<rparr>"
  have h: "cached_result (fixture_b\<lparr>cached_result := None\<rparr>) = None"
    by simp
  from finalizer_without_cached_result[OF h, of the_request ?s] obtain s' where
    run: "handle (FixturePostFinalizer (fixture_b\<lparr>cached_result := None\<rparr>) the_request []) ?s
        = Inr s'"
    and ex: "exported s' = exported ?s"
    and sp: "spans s' = spans ?s @ [placeholder (current_span ?s)]"
    and ft: "fixture_teardown_span s' = Some (length (spans ?s))"
    by (elim exE conjE)
  from ex sp ft have "exported s' = []"
    "spans s' = spans running @ [placeholder None, placeholder None]"
    "fixture_teardown_span s' = Some 2"
    by (simp_all add: running_fields)
  with h run show ?thesis
    by (intro conjI exI[of _ s'])
qed

text \<open>
  C4. A finalizer notification that arrives while the plugin holds no placeholder (the
  attribute does not exist), whatever the fixture: the handler returns normally, hands
  no span to the exporter, changes no span of the store, and leaves a new placeholder,
  recording and under the temporary name, for the next notification.
\<close>

theorem finalizer_without_placeholder:
  assumes "fixture_teardown_span s = None"
  shows "\<exists>s'. handle (FixturePostFinalizer fd req []) s = Inr s' \<and>
           exported s' = exported s \<and>
           spans s' = spans s @ [placeholder (current_span s)] \<and>
           fixture_teardown_span s' = Some (length (spans s)) \<and>
           recording (length (spans s)) s' \<and>
           current_span s' = current_span s"
  using assms
  by (simp add: pytest_fixture_post_finalizer_pre_def pytest_fixture_post_finalizer_post_def
        start_span_def recording_def placeholder_def)

theorem finalizer_without_placeholder_witness:
  "fixture_teardown_span running = None \<and>
   (\<exists>s'. handle (FixturePostFinalizer fixture_a the_request []) running = Inr s' \<and>
      exported s' = [] \<and>
      spans s' = spans running @ [placeholder None] \<and>
      fixture_teardown_span s' = Some 1 \<and>
      recording 1 s')"
proof -
  have h: "fixture_teardown_span running = None"
    by (simp add: running_fields)
  from finalizer_without_placeholder[OF h, of fixture_a the_request] obtain s' where
    run: "handle (FixturePostFinalizer fixture_a the_request []) running = Inr s'"
    and ex: "exported s' = exported running"
    and sp: "spans s' = spans running @ [placeholder (current_span running)]"
    and ft: "fixture_teardown_span s' = Some (length (spans running))"
    and rec: "recording (length (spans running)) s'"
    by (elim exE conjE)
  from ex sp ft rec have "exported s' = []" "spans s' = spans running @ [placeholder None]"
    "fixture_teardown_span s' = Some 1" "recording 1 s'"
    by (simp_all add: running_fields)
  with h run show ?thesis
    by (intro conjI exI[of _ s'])
qed

text \<open>
  C5. The aggregate error flag of the run. Starting the session sets it to false. A
  report for a phase other than the call leaves the whole state as it is; a call report
  sets the flag to its disjunction with "the outcome is failed". Over any sequence of
  notifications, nested ones included, the flag goes from false to true only if the
  sequence holds a call report with outcome failed, and once it is true it stays true
  through every sequence that does not start the session anew.
\<close>

theorem error_flag_monotone:
  "(pytest_sessionstart s = Inr s1 \<longrightarrow> has_error s1 = Some False) \<and>
   (report_when report \<noteq> ''call'' \<longrightarrow> pytest_runtest_logreport report s = Inr s) \<and>
   (report_when report = ''call'' \<and> has_error s = Some h \<longrightarrow>
      (\<exists>s2. pytest_runtest_logreport report s = Inr s2 \<and>
         has_error s2 = Some (h \<or> outcome report = ''failed''))) \<and>
   (handle_all ns s = Inr s' \<and> has_error s = Some False \<and> has_error s' = Some True \<longrightarrow>
      list_ex is_failed_call_report (flatten_all ns)) \<and>
   (handle_all ns s = Inr s' \<and> has_error s = Some True \<and>
    SessionStart \<notin> set (flatten_all ns) \<longrightarrow> has_error s' = Some True)"
proof (intro conjI impI)
  assume "pytest_sessionstart s = Inr s1"
  then show "has_error s1 = Some False" by (rule has_error_sessionstart)
next
  assume "report_when report \<noteq> ''call''"
  then show "pytest_runtest_logreport report s = Inr s"
    by (simp add: pytest_runtest_logreport_def)
next
  assume "report_when report = ''call'' \<and> has_error s = Some h"
  then show "\<exists>s2. pytest_runtest_logreport report s = Inr s2 \<and>
         has_error s2 = Some (h \<or> outcome report = ''failed'')"
    by (simp add: pytest_runtest_logreport_def get_current_span_def set_status_def Let_def
        split: option.splits)
next
  assume "handle_all ns s = Inr s' \<and> has_error s = Some False \<and> has_error s' = Some True"
  with has_error_run(2)[of ns s s'] show "list_ex is_failed_call_report (flatten_all ns)"
    by (auto simp: flag_step_def)
next
  assume "handle_all ns s = Inr s' \<and> has_error s = Some True \<and>
    SessionStart \<notin> set (flatten_all ns)"
  with has_error_run(2)[of ns s s'] show "has_error s' = Some True"
    by (auto simp: flag_step_def)
qed

theorem error_flag_monotone_witness:
  "pytest_sessionstart (new_plugin\<lparr>trace_parent := Some None\<rparr>) = Inr running \<and>
   has_error running = Some False \<and>
   pytest_runtest_logreport (make_report ''setup'' (Failed assertion_error ''E'')) running
     = Inr running \<and>
   pytest_runtest_logreport (make_report ''call'' (Failed assertion_error ''E'')) running
     = Inr (running\<lparr>has_error := Some True\<rparr>) \<and>
   list_ex is_failed_call_report
     (flatten_all [RuntestLogreport (make_report ''call'' (Failed assertion_error ''E''))]) \<and>
   handle_all [RuntestLogreport (make_report ''call'' Passed),
               RuntestLogreport (make_report ''teardown'' (Failed assertion_error ''E''))]
     (running\<lparr>has_error := Some True\<rparr>) = Inr (running\<lparr>has_error := Some True\<rparr>)"
  using error_flag_monotone
          [of "new_plugin\<lparr>trace_parent := Some None\<rparr>" running
              "make_report ''setup'' (Failed assertion_error ''E'')" False
              "[RuntestLogreport (make_report ''call'' (Failed assertion_error ''E''))]"
              "running\<lparr>has_error := Some True\<rparr>"]
        error_flag_monotone
          [of running running
              "make_report ''call'' (Failed assertion_error ''E'')" False
              "[RuntestLogreport (make_report ''call'' Passed),
                RuntestLogreport (make_report ''teardown'' (Failed assertion_error ''E''))]"
              "running\<lparr>has_error := Some True\<rparr>"]
  by (simp add: new_plugin_def running_def pytest_sessionstart_def session_name_def
      start_span_def pytest_runtest_logreport_def get_current_span_def make_report_def
      is_failed_call_report_def Let_def)

text \<open>
  C6. At the end of a run whose root span is still recording and has not been given the
  final status OK: the root span's status becomes error when the aggregate flag is set and
  OK otherwise, the span ends and is handed to the exporter, and a flush is attempted,
  which is counted only when the provider has \<^verbatim>\<open>force_flush\<close>. On a provider without
  it, \<^verbatim>\<open>try_force_flush\<close> returns false and changes nothing.
\<close>

theorem sessionfinish_status_end_flush:
  assumes "session_span s = Some r" and "has_error s = Some e"
    and "recording r s" and "status_code (span_status (spans s ! r)) \<noteq> OK"
  shows "(\<exists>s'. pytest_sessionfinish s = Inr s' \<and>
           span_status (spans s' ! r) = Status (if e then ERROR else OK) None \<and>
           span_ended (spans s' ! r) \<and>
           exported s' = exported s @ [spans s' ! r] \<and>
           flushes s' = (if provider_has_force_flush s then flushes s + 1 else flushes s)) \<and>
         (\<not> provider_has_force_flush t \<longrightarrow> try_force_flush t = (False, t)) \<and>
         (provider_has_force_flush t \<longrightarrow>
            try_force_flush t = (True, t\<lparr>flushes := flushes t + 1\<rparr>))"
  using assms
  by (auto simp: pytest_sessionfinish_def try_force_flush_def span_end_def set_status_def
      on_span_def status_set_def recording_def Let_def)

theorem sessionfinish_status_end_flush_witness:
  "session_span (running\<lparr>has_error := Some True\<rparr>) = Some 0 \<and>
   has_error (running\<lparr>has_error := Some True\<rparr>) = Some True \<and>
   recording 0 (running\<lparr>has_error := Some True\<rparr>) \<and>
   status_code (span_status (spans (running\<lparr>has_error := Some True\<rparr>) ! 0)) \<noteq> OK \<and>
   (\<exists>s'. pytest_sessionfinish (running\<lparr>has_error := Some True\<rparr>) = Inr s' \<and>
      span_status (spans s' ! 0) = Status ERROR None \<and>
      span_ended (spans s' ! 0) \<and>
      exported s' = [spans s' ! 0] \<and>
      flushes s' = 1) \<and>
   try_force_flush (running\<lparr>provider_has_force_flush := False\<rparr>) =
     (False, running\<lparr>provider_has_force_flush := False\<rparr>)"
proof -
  let ?s = "running\<lparr>has_error := Some True\<rparr>"
  have h: "session_span ?s = Some 0" "has_error ?s = Some True" "recording 0 ?s"
    "status_code (span_status (spans ?s ! 0)) \<noteq> OK"
    by (simp_all add: running_def recording_def)
  from sessionfinish_status_end_flush[OF h, of "running\<lparr>provider_has_force_flush := False\<rparr>"]
  have "(\<exists>s'. pytest_sessionfinish ?s = Inr s' \<and>
      span_status (spans s' ! 0) = Status ERROR None \<and>
      span_ended (spans s' ! 0) \<and>
      exported s' = [spans s' ! 0] \<and>
      flushes s' = 1) \<and>
   try_force_flush (running\<lparr>provider_has_force_flush := False\<rparr>) =
     (False, running\<lparr>provider_has_force_flush := False\<rparr>)"
    by (simp add: running_def)
  with h show ?thesis by simp
qed




text \<open>
  C8. A test item of a started session whose setup phase fails with an exception, as it
  does when one of its fixtures raises during set-up; whatever fixture set-ups ran and
  whatever finalizer notifications and outcome the teardown phase has. Handling its
  notifications returns normally and leaves the earlier spans and reports as they were;
  none of the spans created is a call-phase span; the phase spans reported are exactly
  those of setup and teardown; and the test span, reported last, has error status.
\<close>

theorem setup_failure_skips_call:
  assumes "session_span s = Some r" and "are_fixture_setups (setup_inner ir)"
    and "setup_result ir = Failed e l" and "teardown_inner ir = map finalize fds"
  shows "\<exists>s'. handle (runtestprotocol ir) s = Inr s' \<and>
     take (length (spans s)) (spans s') = spans s \<and>
     take (length (exported s)) (exported s') = exported s \<and>
     list_all (\<lambda>sp. span_type sp \<noteq> Some (AStr ''test call''))
       (drop (length (spans s)) (spans s')) \<and>
     map span_name (filter is_phase_span (drop (length (exported s)) (exported s'))) =
       [item_name (run_item ir) @ '' setup'', item_name (run_item ir) @ '' teardown''] \<and>
     span_name (last (exported s')) = item_name (run_item ir) \<and>
     span_type (last (exported s')) = Some (AStr ''test'') \<and>
     status_code (span_status (last (exported s'))) = ERROR"
proof -
  have np: "setup_result ir \<noteq> Passed" using assms(3) by simp
  define T0 where "T0 = new_span (item_name (run_item ir)) (Some (WithSpan r))
                        (item_attributes (run_item ir) ''test'')"
  define T where "T = after_report ''teardown'' (teardown_result ir)
                  (after_report ''setup'' (setup_result ir) T0)"
  from protocol_run_uncalled[OF assms(1,2) np assms(4)]
  obtain ys xs where
    run: "handle (runtestprotocol ir) s =
       Inr (s\<lparr>spans := spans s @ T\<lparr>span_ended := True\<rparr> #
               phase_span (Some (length (spans s))) (run_item ir) ''setup'' # ys @
               phase_span (Some (length (spans s))) (run_item ir) ''teardown'' #
               map (\<lambda>fr. if has_cached_result fr
                          then finalized (Some (length (spans s) + length ys + 2)) fr
                          else placeholder (Some (length (spans s) + length ys + 2))) fds @
               [placeholder (Some (length (spans s) + length ys + 2))],
             exported := exported s @ xs @
               phase_span (Some (length (spans s))) (run_item ir) ''setup'' #
               map (finalized (Some (length (spans s) + length ys + 2)))
                 (filter has_cached_result fds) @
               [phase_span (Some (length (spans s))) (run_item ir) ''teardown'',
                T\<lparr>span_ended := True\<rparr>],
             fixture_teardown_span := None\<rparr>)"
    and ys: "list_all fixture_setup_span ys" and xs: "list_all fixture_setup_span xs"
    unfolding T_def T0_def by blast
  have "status_code (span_status (after_report ''setup'' (setup_result ir) T0)) = ERROR"
    using after_report_failed[of T0 "''setup''" e l] by (simp add: assms(3) T0_def)
  then have err: "status_code (span_status T) = ERROR"
    unfolding T_def by (rule after_report_error) simp
  have T: "span_name T = item_name (run_item ir)" "span_type T = Some (AStr ''test'')"
    by (simp_all add: T_def T0_def)
  have phase: "\<not> is_phase_span (T\<lparr>span_ended := True\<rparr>)"
    "is_phase_span (phase_span c (run_item ir) ''setup'')"
    "is_phase_span (phase_span c (run_item ir) ''teardown'')" for c
    by (simp_all add: is_phase_span_def T)
  show ?thesis
    unfolding run
    using not_call_fixture_setups[OF ys] filter_phase_fixture_setups[OF xs]
    by (simp add: T err phase not_call_teardown_pipeline)
qed

theorem setup_failure_skips_call_witness:
  "session_span running = Some 0 \<and>
   are_fixture_setups
     (setup_inner ((plain_run test_two)
        \<lparr>setup_inner := [FixtureSetup fixture_a the_request []],
         setup_result := Failed assertion_error ''E'',
         teardown_inner := map finalize [(fixture_a, the_request)]\<rparr>)) \<and>
   (\<exists>s'. handle (runtestprotocol ((plain_run test_two)
        \<lparr>setup_inner := [FixtureSetup fixture_a the_request []],
         setup_result := Failed assertion_error ''E'',
         teardown_inner := map finalize [(fixture_a, the_request)]\<rparr>)) running = Inr s' \<and>
      list_all (\<lambda>sp. span_type sp \<noteq> Some (AStr ''test call'')) (drop 1 (spans s')) \<and>
      map span_name (filter is_phase_span (exported s')) =
        [''test_two setup'', ''test_two teardown''] \<and>
      span_name (last (exported s')) = ''test_two'' \<and>
      status_code (span_status (last (exported s'))) = ERROR)"
proof -
  let ?ir = "(plain_run test_two)
        \<lparr>setup_inner := [FixtureSetup fixture_a the_request []],
         setup_result := Failed assertion_error ''E'',
         teardown_inner := map finalize [(fixture_a, the_request)]\<rparr>"
  have h: "session_span running = Some 0" "are_fixture_setups (setup_inner ?ir)"
    "setup_result ?ir = Failed assertion_error ''E''"
    "teardown_inner ?ir = map finalize [(fixture_a, the_request)]"
    by (simp_all add: running_fields plain_run_def)
  from setup_failure_skips_call[OF h] obtain s' where
    run: "handle (runtestprotocol ?ir) running = Inr s'"
    and nocall: "list_all (\<lambda>sp. span_type sp \<noteq> Some (AStr ''test call''))
       (drop (length (spans running)) (spans s'))"
    and ph: "map span_name (filter is_phase_span (drop (length (exported running))
         (exported s'))) =
       [item_name (run_item ?ir) @ '' setup'', item_name (run_item ?ir) @ '' teardown'']"
    and nm: "span_name (last (exported s')) = item_name (run_item ?ir)"
    and err: "status_code (span_status (last (exported s'))) = ERROR"
    by (elim exE conjE)
  from nocall have nocall': "list_all (\<lambda>sp. span_type sp \<noteq> Some (AStr ''test call''))
      (drop 1 (spans s'))"
    by (simp add: running_fields)
  from ph have ph': "map span_name (filter is_phase_span (exported s')) =
        [''test_two setup'', ''test_two teardown'']"
    by (simp add: running_fields plain_run_def test_two_def)
  from nm have nm': "span_name (last (exported s')) = ''test_two''"
    by (simp add: plain_run_def test_two_def)
  from h(1,2) run nocall' ph' nm' err show ?thesis
    by (intro conjI exI[of _ s'])
qed

text \<open>
  C9. The line-number attribute. For a test item of a started session, whatever its
  fixtures and outcomes, the reported spans of the item itself are its test span and its
  phase spans (four when the call phase runs, three otherwise), and every one of them has
  no \<^verbatim>\<open>code.lineno\<close> key when the item's line number is None or zero, and has the key
  with the line number as its value otherwise. The span reported for a fixture set-up,
  and the span reported for the teardown of a fixture with a cached result, have the key,
  with the line number of the fixture function, exactly when the fixture has a location
  and that line number is not zero.
\<close>

theorem line_number_attribute:
  "(session_span s = Some r \<and> has_error s = Some h \<and>
    are_fixture_setups (setup_inner ir) \<and> are_fixture_setups (call_inner ir) \<and>
    teardown_inner ir = map finalize fds \<and> location (run_item ir) = (fp, ln, dm) \<longrightarrow>
      (\<exists>s'. handle (runtestprotocol ir) s = Inr s' \<and>
         length (filter is_item_span (drop (length (exported s)) (exported s'))) =
           (if setup_result ir = Passed then 4 else 3) \<and>
         list_all
           (\<lambda>sp. lineno sp =
              (case ln of None \<Rightarrow> None | Some n \<Rightarrow> if n = 0 then None else Some (AInt n)))
           (filter is_item_span (drop (length (exported s)) (exported s'))))) \<and>
   (\<exists>s' sp. handle (FixtureSetup fd req []) s = Inr s' \<and>
      exported s' = exported s @ [sp] \<and>
      span_name sp = argname fd @ '' setup'' \<and>
      span_type sp = Some (AStr ''fixture setup'') \<and>
      lineno sp =
        (if has_location fd \<and> snd (fslineno fd) \<noteq> 0
         then Some (AInt (snd (fslineno fd))) else None)) \<and>
   (cached_result fd \<noteq> None \<longrightarrow>
      (\<exists>s' sp ph. handle (RuntestTeardown it [finalize (fd, req)]) s = Inr s' \<and>
         exported s' = exported s @ [sp, ph] \<and>
         span_name sp = argname fd @ '' teardown'' \<and>
         span_type sp = Some (AStr ''fixture teardown'') \<and>
         lineno sp =
           (if has_location fd \<and> snd (fslineno fd) \<noteq> 0
            then Some (AInt (snd (fslineno fd))) else None)))"
proof (intro conjI impI)
  assume a: "session_span s = Some r \<and> has_error s = Some h \<and>
    are_fixture_setups (setup_inner ir) \<and> are_fixture_setups (call_inner ir) \<and>
    teardown_inner ir = map finalize fds \<and> location (run_item ir) = (fp, ln, dm)"
  then have "lineno_of (fst (snd (location (run_item ir)))) =
      (case ln of None \<Rightarrow> None | Some n \<Rightarrow> if n = 0 then None else Some (AInt n))"
    by (simp add: lineno_of_def)
  with a item_run_lineno[of s r h ir fds]
  show "\<exists>s'. handle (runtestprotocol ir) s = Inr s' \<and>
         length (filter is_item_span (drop (length (exported s)) (exported s'))) =
           (if setup_result ir = Passed then 4 else 3) \<and>
         list_all
           (\<lambda>sp. lineno sp =
              (case ln of None \<Rightarrow> None | Some n \<Rightarrow> if n = 0 then None else Some (AInt n)))
           (filter is_item_span (drop (length (exported s)) (exported s')))"
    by simp
next
  have e: "(if has_location fd then lineno_of (Some (snd (fslineno fd))) else None) =
        (if has_location fd \<and> snd (fslineno fd) \<noteq> 0
         then Some (AInt (snd (fslineno fd))) else None)"
    by (simp add: lineno_of_def)
  show "\<exists>s' sp. handle (FixtureSetup fd req []) s = Inr s' \<and>
      exported s' = exported s @ [sp] \<and>
      span_name sp = argname fd @ '' setup'' \<and>
      span_type sp = Some (AStr ''fixture setup'') \<and>
      lineno sp =
        (if has_location fd \<and> snd (fslineno fd) \<noteq> 0
         then Some (AInt (snd (fslineno fd))) else None)"
    using fixture_setup_lineno[of fd req s] unfolding e .
next
  assume c: "cached_result fd \<noteq> None"
  have e: "(if has_location fd then lineno_of (Some (snd (fslineno fd))) else None) =
        (if has_location fd \<and> snd (fslineno fd) \<noteq> 0
         then Some (AInt (snd (fslineno fd))) else None)"
    by (simp add: lineno_of_def)
  show "\<exists>s' sp ph. handle (RuntestTeardown it [finalize (fd, req)]) s = Inr s' \<and>
         exported s' = exported s @ [sp, ph] \<and>
         span_name sp = argname fd @ '' teardown'' \<and>
         span_type sp = Some (AStr ''fixture teardown'') \<and>
         lineno sp =
           (if has_location fd \<and> snd (fslineno fd) \<noteq> 0
            then Some (AInt (snd (fslineno fd))) else None)"
    using fixture_teardown_lineno[OF c, of it req s] unfolding e .
qed

theorem line_number_attribute_witness:
  "(\<exists>s'. handle (runtestprotocol (plain_run test_one)) running = Inr s' \<and>
      length (filter is_item_span (exported s')) = 4 \<and>
      list_all (\<lambda>sp. lineno sp = None) (filter is_item_span (exported s'))) \<and>
   (\<exists>s'. handle (runtestprotocol (plain_run test_two)) running = Inr s' \<and>
      length (filter is_item_span (exported s')) = 4 \<and>
      list_all (\<lambda>sp. lineno sp = Some (AInt 3)) (filter is_item_span (exported s'))) \<and>
   (\<exists>s' sp ph. handle (RuntestTeardown test_one [finalize (fixture_a, the_request)]) running
        = Inr s' \<and>
      exported s' = [sp, ph] \<and>
      span_name sp = ''fixture_a teardown'' \<and>
      lineno sp = Some (AInt 5)) \<and>
   (\<exists>s' sp ph. handle (RuntestTeardown test_one
        [finalize (fixture_a\<lparr>fslineno := (fst (fslineno fixture_a), 0)\<rparr>,
                   the_request)]) running = Inr s' \<and>
      exported s' = [sp, ph] \<and>
      lineno sp = None)"
proof -
  let ?fz = "fixture_a\<lparr>fslineno := (fst (fslineno fixture_a), 0)\<rparr>"
  have one: "session_span running = Some 0 \<and> has_error running = Some False \<and>
    are_fixture_setups (setup_inner (plain_run test_one)) \<and>
    are_fixture_setups (call_inner (plain_run test_one)) \<and>
    teardown_inner (plain_run test_one) = map finalize [] \<and>
    location (run_item (plain_run test_one)) = (''test_sample.py'', Some 0, ''test_one'')"
    by (simp add: running_fields plain_run_def test_one_def)
  have two: "session_span running = Some 0 \<and> has_error running = Some False \<and>
    are_fixture_setups (setup_inner (plain_run test_two)) \<and>
    are_fixture_setups (call_inner (plain_run test_two)) \<and>
    teardown_inner (plain_run test_two) = map finalize [] \<and>
    location (run_item (plain_run test_two)) = (''test_sample.py'', Some 3, ''test_two'')"
    by (simp add: running_fields plain_run_def test_two_def)
  have c: "cached_result fixture_a \<noteq> None" "cached_result ?fz \<noteq> None"
    by (simp_all add: fixture_a_def)
  note i1 = line_number_attribute
         [of running 0 False "plain_run test_one" "[]" "''test_sample.py''" "Some 0"
             "''test_one''" fixture_a the_request test_one]
  note i2 = line_number_attribute
         [of running 0 False "plain_run test_two" "[]" "''test_sample.py''" "Some 3"
             "''test_two''" ?fz the_request test_one]
  note i1a = i1[THEN conjunct1, THEN mp, OF one]
  note i2a = i2[THEN conjunct1, THEN mp, OF two]
  note i1c = i1[THEN conjunct2, THEN conjunct2, THEN mp, OF c(1)]
  note i2c = i2[THEN conjunct2, THEN conjunct2, THEN mp, OF c(2)]
  from i1a obtain s1 where
    r1: "handle (runtestprotocol (plain_run test_one)) running = Inr s1"
    and n1: "length (filter is_item_span (drop (length (exported running)) (exported s1))) =
           (if setup_result (plain_run test_one) = Passed then 4 else 3)"
    and l1: "list_all
           (\<lambda>sp. lineno sp =
              (case Some 0 of None \<Rightarrow> None | Some n \<Rightarrow> if n = 0 then None else Some (AInt n)))
           (filter is_item_span (drop (length (exported running)) (exported s1)))"
    by (elim exE conjE)
  from n1 l1 have first: "\<exists>s'. handle (runtestprotocol (plain_run test_one)) running = Inr s' \<and>
      length (filter is_item_span (exported s')) = 4 \<and>
      list_all (\<lambda>sp. lineno sp = None) (filter is_item_span (exported s'))"
    using r1 by (intro exI[of _ s1]) (simp add: running_fields plain_run_def)
  from i2a obtain s2 where
    r2: "handle (runtestprotocol (plain_run test_two)) running = Inr s2"
    and n2: "length (filter is_item_span (drop (length (exported running)) (exported s2))) =
           (if setup_result (plain_run test_two) = Passed then 4 else 3)"
    and l2: "list_all
           (\<lambda>sp. lineno sp =
              (case Some 3 of None \<Rightarrow> None | Some n \<Rightarrow> if n = 0 then None else Some (AInt n)))
           (filter is_item_span (drop (length (exported running)) (exported s2)))"
    by (elim exE conjE)
  from n2 l2 have second: "\<exists>s'. handle (runtestprotocol (plain_run test_two)) running = Inr s' \<and>
      length (filter is_item_span (exported s')) = 4 \<and>
      list_all (\<lambda>sp. lineno sp = Some (AInt 3)) (filter is_item_span (exported s'))"
    using r2 by (intro exI[of _ s2]) (simp add: running_fields plain_run_def)
  from i1c obtain s3 sp3 ph3 where
    r3: "handle (RuntestTeardown test_one [finalize (fixture_a, the_request)]) running = Inr s3"
    and e3: "exported s3 = exported running @ [sp3, ph3]"
    and nm3: "span_name sp3 = argname fixture_a @ '' teardown''"
    and l3: "lineno sp3 =
           (if has_location fixture_a \<and> snd (fslineno fixture_a) \<noteq> 0
            then Some (AInt (snd (fslineno fixture_a))) else None)"
    by (elim exE conjE)
  from e3 nm3 l3 have third: "\<exists>s' sp ph.
      handle (RuntestTeardown test_one [finalize (fixture_a, the_request)]) running = Inr s' \<and>
      exported s' = [sp, ph] \<and>
      span_name sp = ''fixture_a teardown'' \<and>
      lineno sp = Some (AInt 5)"
    using r3 by (intro exI[of _ s3] exI[of _ sp3] exI[of _ ph3])
      (simp add: running_fields fixture_a_def)
  from i2c obtain s4 sp4 ph4 where
    r4: "handle (RuntestTeardown test_one [finalize (?fz, the_request)]) running = Inr s4"
    and e4: "exported s4 = exported running @ [sp4, ph4]"
    and l4: "lineno sp4 =
           (if has_location ?fz \<and> snd (fslineno ?fz) \<noteq> 0
            then Some (AInt (snd (fslineno ?fz))) else None)"
    by (elim exE conjE)
  from e4 l4 have fourth: "\<exists>s' sp ph.
      handle (RuntestTeardown test_one [finalize (?fz, the_request)]) running = Inr s' \<and>
      exported s' = [sp, ph] \<and>
      lineno sp = None"
    using r4 by (intro exI[of _ s4] exI[of _ sp4] exI[of _ ph4])
      (simp add: running_fields)
  from first second third fourth show ?thesis by (intro conjI)
qed

text \<open>
  C10. The parent trace context is resolved in a fixed order. The base plugin takes the
  \<^verbatim>\<open>--trace-parent\<close> configuration value when there is one, otherwise the
  \<^verbatim>\<open>TRACEPARENT\<close> environment variable, otherwise no parent. The xdist-aware plugin
  takes the worker's handshake payload when there is one and falls back to the base rule
  otherwise. A value counts as present when Python finds it truthy.
\<close>

theorem get_trace_parent_precedence:
  "(trace_parent_option cfg = Some tp \<and> tp \<noteq> [] \<longrightarrow>
      get_trace_parent cfg env = Some (Extracted [(''traceparent'', tp)])) \<and>
   (\<not> truthy (trace_parent_option cfg) \<and> map_of env ''TRACEPARENT'' = Some tp' \<and> tp' \<noteq> [] \<longrightarrow>
      get_trace_parent cfg env = Some (Extracted [(''traceparent'', tp')])) \<and>
   (\<not> truthy (trace_parent_option cfg) \<and> \<not> truthy (map_of env ''TRACEPARENT'') \<longrightarrow>
      get_trace_parent cfg env = None) \<and>
   (workerinput cfg = Some wi \<and> wi \<noteq> [] \<longrightarrow>
      xdist_get_trace_parent cfg env = Some (Extracted wi)) \<and>
   (workerinput cfg = None \<or> workerinput cfg = Some [] \<longrightarrow>
      xdist_get_trace_parent cfg env = get_trace_parent cfg env)"
  by (auto simp: get_trace_parent_def xdist_get_trace_parent_def truthy_def split: option.splits)

theorem get_trace_parent_precedence_witness:
  "get_trace_parent \<lparr>trace_parent_option = Some ''00-a-b-01'', workerinput = None\<rparr>
     [(''TRACEPARENT'', ''00-c-d-01'')] = Some (Extracted [(''traceparent'', ''00-a-b-01'')]) \<and>
   get_trace_parent \<lparr>trace_parent_option = None, workerinput = None\<rparr>
     [(''TRACEPARENT'', ''00-c-d-01'')] = Some (Extracted [(''traceparent'', ''00-c-d-01'')]) \<and>
   get_trace_parent \<lparr>trace_parent_option = None, workerinput = None\<rparr> [] = None \<and>
   xdist_get_trace_parent
     \<lparr>trace_parent_option = Some ''00-a-b-01'',
      workerinput = Some [(''traceparent'', ''00-e-f-01'')]\<rparr>
     [(''TRACEPARENT'', ''00-c-d-01'')] = Some (Extracted [(''traceparent'', ''00-e-f-01'')]) \<and>
   xdist_get_trace_parent \<lparr>trace_parent_option = Some ''00-a-b-01'', workerinput = None\<rparr> []
     = get_trace_parent \<lparr>trace_parent_option = Some ''00-a-b-01'', workerinput = None\<rparr> []"
  using get_trace_parent_precedence
          [of "\<lparr>trace_parent_option = Some ''00-a-b-01'', workerinput = None\<rparr>" "''00-a-b-01''"
              "[(''TRACEPARENT'', ''00-c-d-01'')]" "''00-c-d-01''" "[]"]
        get_trace_parent_precedence
          [of "\<lparr>trace_parent_option = None, workerinput = None\<rparr>" "''x''"
              "[(''TRACEPARENT'', ''00-c-d-01'')]" "''00-c-d-01''" "[]"]
        get_trace_parent_precedence
          [of "\<lparr>trace_parent_option = None, workerinput = None\<rparr>" "''x''" "[]" "''y''" "[]"]
        get_trace_parent_precedence
          [of "\<lparr>trace_parent_option = Some ''00-a-b-01'',
                workerinput = Some [(''traceparent'', ''00-e-f-01'')]\<rparr>"
              "''00-a-b-01''" "[(''TRACEPARENT'', ''00-c-d-01'')]" "''00-c-d-01''"
              "[(''traceparent'', ''00-e-f-01'')]"]
        get_trace_parent_precedence
          [of "\<lparr>trace_parent_option = Some ''00-a-b-01'', workerinput = None\<rparr>" "''00-a-b-01''"
              "[]" "''y''" "[]"]
  by (simp add: truthy_def)

end
